theory Spec2Isabelle
  imports Complex_Main "HOL-Library.Word"
begin

section \<open>Python values, errors and strings\<close>

text \<open>
  The module under study is \<^verbatim>\<open>neox/training.py\<close>: the pretraining driver of GPT-NeoX.
  Python exceptions are values of type \<open>error\<close>; a function that can raise returns
  \<open>error + 'a\<close> with \<open>Inl\<close> for the exception.  \<open>External\<close> stands for any exception
  raised inside a collaborator that is not part of this module (DeepSpeed, torch, the
  other \<^verbatim>\<open>neox\<close> packages).  Python floats are idealised as reals, Python integers are
  \<open>int\<close>, the entries of an int64 tensor are \<open>64 word\<close>.
\<close>

datatype error =
    TypeError
  | KeyError
  | ValueError string
  | PyException
  | ZeroDivisionError
  | SystemExit
  | External

text \<open>Configuration values as they come out of the YAML/JSON configuration.\<close>

datatype pyval =
    PyNone
  | PyBool bool
  | PyInt int
  | PyFloat real
  | PyStr string
  | PyList "pyval list"
  | PyDict "(string \<times> pyval) list"

text \<open>\<^verbatim>\<open>v[key]\<close> for a string key: only a dict can be subscripted by a string.\<close>

fun py_getitem :: "pyval \<Rightarrow> string \<Rightarrow> error + pyval" where
  "py_getitem (PyDict d) k = (case map_of d k of None \<Rightarrow> Inl KeyError | Some v \<Rightarrow> Inr v)"
| "py_getitem _ k = Inl TypeError"

text \<open>\<^verbatim>\<open>v == s\<close> for a string literal \<open>s\<close>: true only when \<open>v\<close> is that string.\<close>

fun py_eq_str :: "pyval \<Rightarrow> string \<Rightarrow> bool" where
  "py_eq_str (PyStr t) s = (t = s)"
| "py_eq_str _ s = False"

text \<open>
  \<^verbatim>\<open>str.lower()\<close> on the ASCII range: \<open>A\<close>..\<open>Z\<close> (65..90) move to \<open>a\<close>..\<open>z\<close>, every
  other character stays.
\<close>

definition lower_char :: "char \<Rightarrow> char" where
  "lower_char c =
     (let n = (of_char c :: nat) in if 65 \<le> n \<and> n \<le> 90 then char_of (n + 32) else c)"

definition lower :: "string \<Rightarrow> string" where
  "lower s = map lower_char s"

section \<open>The configuration object\<close>

text \<open>
  The fields of \<^verbatim>\<open>neox_args\<close> that \<^verbatim>\<open>training.py\<close> reads.  Optional settings are
  options; \<open>timers_set\<close> tells whether \<^verbatim>\<open>neox_args.timers\<close> holds a timers object or
  \<^verbatim>\<open>None\<close>; \<open>optimizer\<close> is the optimizer block of the configuration.
\<close>

record neox_args =
  is_pipe_parallel :: bool
  precision :: string
  gradient_accumulation_steps :: int
  train_iters :: int
  iteration :: int
  exit_interval :: "int option"
  save :: "string option"
  save_interval :: "int option"
  eval_interval :: "int option"
  do_valid :: bool
  log_gradient_noise_scale :: bool
  eval_iters :: int
  log_interval :: int
  char_level_ppl :: bool
  eval_tasks :: "string list"
  deepspeed_activation_checkpointing :: bool
  timers_set :: bool
  eod_mask_loss :: bool
  fp16_lm_cross_entropy :: bool
  tokenizer_eod :: "64 word"
  no_load_optim :: bool
  optimizer_type :: string
  optimizer :: pyval
  weight_decay :: real
  use_bnb_optimizer :: bool
  lr_decay_iters :: "int option"
  warmup :: real
  lr :: real
  min_lr :: real
  lr_decay_style :: string
  use_checkpoint_lr_scheduler :: bool
  override_lr_scheduler :: bool

section \<open>Optimizer and scheduler builders\<close>

text \<open>
  A parameter carries the attributes the builder touches; \<open>model_parallel = None\<close> says
  the attribute is not set.  A parameter group is the dict the weight-decay partition
  returns.  An optimizer object is represented by the class that was instantiated and
  the arguments it was given.
\<close>

record param =
  pname :: string
  requires_grad :: bool
  model_parallel :: "bool option"

record param_group =
  params :: "param list"
  group_weight_decay :: "real option"

datatype optimizer_class =
    TorchAdam
  | DeepSpeedCPUAdam
  | SM3
  | Madgrad_wd
  | Adam8bit
  | ApexFusedAdam
  | DeepSpeedFusedAdam

record optimizer_obj =
  opt_class :: optimizer_class
  opt_param_groups :: "param_group list"
  opt_kwargs :: "(string \<times> pyval) list"

text \<open>
  What the builder takes from outside this module: the weight-decay partition of the
  model's parameters, the filter for trainable parameters (\<open>None\<close>: the call raised), and
  whether the optional packages can be imported.
\<close>

record 'm build_env =
  get_params_for_weight_decay_optimization :: "'m \<Rightarrow> neox_args \<Rightarrow> param_group list option"
  filter_trainable_params :: "param_group list \<Rightarrow> param_group list option"
  bitsandbytes_installed :: bool
  apex_installed :: bool

text \<open>\<^verbatim>\<open>if not hasattr(param, "model_parallel"): param.model_parallel = False\<close>\<close>

definition set_model_parallel :: "param \<Rightarrow> param" where
  "set_model_parallel p =
     (case model_parallel p of None \<Rightarrow> p\<lparr>model_parallel := Some False\<rparr> | Some b \<Rightarrow> p)"

definition tag_model_parallel :: "param_group list \<Rightarrow> param_group list" where
  "tag_model_parallel gs = map (\<lambda>g. g\<lparr>params := map set_model_parallel (params g)\<rparr>) gs"

text \<open>
  \<^verbatim>\<open>cls(param_groups, weight_decay=wd, **neox_args.optimizer["params"])\<close>: the subscript
  can raise, the double star needs a mapping, and a keyword given twice is a
  \<^verbatim>\<open>TypeError\<close>.  \<open>wd = None\<close> is the call without the \<^verbatim>\<open>weight_decay\<close> keyword (SM3).
\<close>

definition construct ::
  "optimizer_class \<Rightarrow> param_group list \<Rightarrow> real option \<Rightarrow> pyval \<Rightarrow> error + optimizer_obj" where
  "construct cls groups wd cfg =
     (case py_getitem cfg ''params'' of
        Inl e \<Rightarrow> Inl e
      | Inr p \<Rightarrow>
          (case p of
             PyDict kw \<Rightarrow>
               (case wd of
                  None \<Rightarrow> Inr \<lparr>opt_class = cls, opt_param_groups = groups, opt_kwargs = kw\<rparr>
                | Some w \<Rightarrow>
                    if ''weight_decay'' \<in> set (map fst kw) then Inl TypeError
                    else Inr \<lparr>opt_class = cls, opt_param_groups = groups,
                              opt_kwargs = (''weight_decay'', PyFloat w) # kw\<rparr>)
           | _ \<Rightarrow> Inl TypeError))"

definition with_groups ::
  "param_group list \<Rightarrow> error + optimizer_obj \<Rightarrow> error + (optimizer_obj option \<times> param_group list option)" where
  "with_groups groups r = (case r of Inl e \<Rightarrow> Inl e | Inr ob \<Rightarrow> Inr (Some ob, Some groups))"

text \<open>The \<^verbatim>\<open>if\<close>/\<^verbatim>\<open>elif\<close> chain of \<^verbatim>\<open>get_optimizer\<close> on the lowered type string.\<close>

definition init_optimizer ::
  "'m build_env \<Rightarrow> neox_args \<Rightarrow> param_group list \<Rightarrow>
     error + (optimizer_obj option \<times> param_group list option)" where
  "init_optimizer env a groups =
     (if lower (optimizer_type a) \<in> set [''cpu_adam'', ''cpu_torch_adam''] then
        with_groups groups
          (construct
             (if py_eq_str (optimizer a) ''cpu_torch_adam'' then TorchAdam else DeepSpeedCPUAdam)
             groups (Some (weight_decay a)) (optimizer a))
      else if lower (optimizer_type a) = ''onebitadam'' then Inr (None, Some groups)
      else if lower (optimizer_type a) = ''sm3'' then
        with_groups groups (construct SM3 groups None (optimizer a))
      else if lower (optimizer_type a) = ''madgrad_wd'' then
        with_groups groups (construct Madgrad_wd groups (Some (weight_decay a)) (optimizer a))
      else if lower (optimizer_type a) = ''adam'' then
        (if use_bnb_optimizer a then
           (if bitsandbytes_installed env then
              with_groups groups
                (construct Adam8bit groups (Some (weight_decay a)) (optimizer a))
            else Inl PyException)
         else
           with_groups groups
             (construct (if apex_installed env then ApexFusedAdam else DeepSpeedFusedAdam)
                groups (Some (weight_decay a)) (optimizer a)))
      else Inl (ValueError (''Optimizer type '' @ optimizer_type a @ '' not recognized'')))"

definition get_optimizer ::
  "'m build_env \<Rightarrow> 'm \<Rightarrow> neox_args \<Rightarrow>
     error + (optimizer_obj option \<times> param_group list option)" where
  "get_optimizer env model a =
     (if no_load_optim a then Inr (None, None)
      else
        (case get_params_for_weight_decay_optimization env model a of
           None \<Rightarrow> Inl External
         | Some groups0 \<Rightarrow>
             (case py_getitem (optimizer a) ''params'' of
                Inl e \<Rightarrow> Inl e
              | Inr shown \<Rightarrow>
                  (case filter_trainable_params env (tag_model_parallel groups0) of
                     None \<Rightarrow> Inl External
                   | Some groups \<Rightarrow> init_optimizer env a groups))))"

text \<open>
  The scheduler object is the argument list of the \<^verbatim>\<open>AnnealingLR\<close> constructor;
  \<open>None\<close> is Python's \<^verbatim>\<open>None\<close>.
\<close>

record annealing_lr =
  sched_optimizer :: "optimizer_obj option"
  start_lr :: real
  warmup_iter :: real
  total_iters :: int
  decay_style :: string
  last_iter :: int
  sched_min_lr :: real
  sched_use_checkpoint_lr_scheduler :: bool
  sched_override_lr_scheduler :: bool

definition num_iters :: "neox_args \<Rightarrow> int" where
  "num_iters a = (case lr_decay_iters a of Some n \<Rightarrow> n | None \<Rightarrow> train_iters a)"

definition get_learning_rate_scheduler ::
  "optimizer_obj option \<Rightarrow> neox_args \<Rightarrow> annealing_lr option" where
  "get_learning_rate_scheduler opt a =
     (if no_load_optim a then None
      else if lower (optimizer_type a) = ''onebitadam'' then None
      else
        Some \<lparr>sched_optimizer = opt,
              start_lr = lr a,
              warmup_iter = warmup a * of_int (num_iters a),
              total_iters = max 1 (num_iters a),
              decay_style = lr_decay_style a,
              last_iter = 0,
              sched_min_lr = min_lr a,
              sched_use_checkpoint_lr_scheduler = use_checkpoint_lr_scheduler a,
              sched_override_lr_scheduler = override_lr_scheduler a\<rparr>)"

section \<open>State, effects and collaborators\<close>

text \<open>
  The stateful functions of the module run against an engine: the DeepSpeed model engine
  with its optimizer, the data iterators, the timers and the loggers.  The module itself
  only knows the model's training-mode flag; everything else is the opaque component
  \<open>ext\<close>.  A program state holds the engine, torch's gradient mode and the trace of the
  calls made to collaborators, each with the gradient mode it was made under.  A call to
  a collaborator may change the engine and may raise (\<open>None\<close>); a state change made
  before an exception stays, as in Python.
\<close>

record 'x engine =
  training :: bool
  ext :: 'x

datatype timer_op = TGet | TStart | TStop | TReset

text \<open>
  A data iterator handle: an iterator of the run, the counting adapter
  \<^verbatim>\<open>CharCounter(data_iterator, tokenizer)\<close> around one, or \<^verbatim>\<open>None\<close>.
\<close>

datatype data_iter = DataIter nat | CharCounter data_iter | NoIter

datatype event =
    EvTimer string timer_op
  | EvNext data_iter
  | EvBroadcastData
  | EvMasks
  | EvModelCall
  | EvCrossEntropy
  | EvEvalBatch data_iter
  | EvTrainBatch data_iter
  | EvBackward
  | EvStep
  | EvReduceLosses
  | EvModelTrain
  | EvModelEval
  | EvNoiseScaleLogger
  | EvNoiseScaleUpdate
  | EvOverflowMonitor
  | EvOverflowCheck int
  | EvTrainingLog int
  | EvSaveCheckpoint int
  | EvReportResults int
  | EvBarrier
  | EvGetRank
  | EvTokensPerChar
  | EvCheckpointingReset
  | EvEvalHarness

record 'x st =
  eng :: "'x engine"
  grad_enabled :: bool
  trace :: "(event \<times> bool) list"

type_synonym ('x, 'a) prog = "'x st \<Rightarrow> (error + 'a) \<times> 'x st"

type_synonym ('x, 'a) collab = "'x engine \<Rightarrow> 'a option \<times> 'x engine"

definition ret :: "'a \<Rightarrow> ('x, 'a) prog" where
  "ret x s = (Inr x, s)"

definition raise :: "error \<Rightarrow> ('x, 'a) prog" where
  "raise e s = (Inl e, s)"

definition bnd :: "('x, 'a) prog \<Rightarrow> ('a \<Rightarrow> ('x, 'b) prog) \<Rightarrow> ('x, 'b) prog" where
  "bnd m f s = (case m s of (Inl e, s') \<Rightarrow> (Inl e, s') | (Inr x, s') \<Rightarrow> f x s')"

text \<open>A traced call of a collaborator, and an attribute read on the engine.\<close>

definition call :: "event \<Rightarrow> ('x, 'a) collab \<Rightarrow> ('x, 'a) prog" where
  "call ev c s =
     (case c (eng s) of
        (r, e') \<Rightarrow>
          ((case r of None \<Rightarrow> Inl External | Some x \<Rightarrow> Inr x),
           s\<lparr>eng := e', trace := trace s @ [(ev, grad_enabled s)]\<rparr>))"

definition observe :: "('x engine \<Rightarrow> 'a option) \<Rightarrow> ('x, 'a) prog" where
  "observe f s = (case f (eng s) of None \<Rightarrow> (Inl External, s) | Some x \<Rightarrow> (Inr x, s))"

text \<open>\<^verbatim>\<open>model.train()\<close> and \<^verbatim>\<open>model.eval()\<close> set the training-mode flag.\<close>

definition set_mode :: "bool \<Rightarrow> ('x, unit) collab" where
  "set_mode b e = (Some (), e\<lparr>training := b\<rparr>)"

definition model_train :: "('x, unit) prog" where
  "model_train = call EvModelTrain (set_mode True)"

definition model_eval :: "('x, unit) prog" where
  "model_eval = call EvModelEval (set_mode False)"

text \<open>
  \<^verbatim>\<open>with torch.no_grad():\<close> switches gradient tracking off for its body and restores
  the previous mode when the body is left, by return or by exception.
\<close>

definition no_grad :: "('x, 'a) prog \<Rightarrow> ('x, 'a) prog" where
  "no_grad m s =
     (case m (s\<lparr>grad_enabled := False\<rparr>) of (r, s') \<Rightarrow> (r, s'\<lparr>grad_enabled := grad_enabled s\<rparr>))"

text \<open>\<^verbatim>\<open>for _ in range(n):\<close> around a body that updates local variables \<open>acc\<close>.\<close>

primrec for_range :: "nat \<Rightarrow> ('a \<Rightarrow> ('x, 'a) prog) \<Rightarrow> 'a \<Rightarrow> ('x, 'a) prog" where
  "for_range 0 body acc = ret acc"
| "for_range (Suc n) body acc = bnd (body acc) (for_range n body)"

text \<open>\<^verbatim>\<open>for t in [...]:\<close> over a list literal.\<close>

primrec for_each :: "'b list \<Rightarrow> ('b \<Rightarrow> ('x, unit) prog) \<Rightarrow> ('x, unit) prog" where
  "for_each [] body = ret ()"
| "for_each (t # ts) body = bnd (body t) (\<lambda>u. for_each ts body)"

type_synonym matrix = "64 word list list"

text \<open>An evaluation result is a float or the metrics dict of a harness task.\<close>

datatype result_val = RFloat real | RDict "(string \<times> real) list"

text \<open>
  The collaborators.  \<open>'t\<close> is the type of the tensors this module only passes on
  (masks, position ids, logits).  \<open>mean\<close> is \<^verbatim>\<open>Tensor.mean()\<close>; the three
  \<open>optimizer_\<close> fields read attributes (\<open>None\<close>: the read raised).
\<close>

record ('x, 't) env =
  timers :: "string \<Rightarrow> timer_op \<Rightarrow> ('x, unit) collab"
  next_batch :: "data_iter \<Rightarrow> ('x, string \<rightharpoonup> matrix) collab"
  broadcast_data :: "string list \<Rightarrow> (string \<rightharpoonup> matrix) option \<Rightarrow> ('x, string \<rightharpoonup> matrix) collab"
  get_ltor_masks_and_position_ids :: "matrix \<Rightarrow> 64 word \<Rightarrow> bool \<Rightarrow> ('x, 't \<times> 't \<times> 't) collab"
  model_call :: "matrix \<Rightarrow> 't \<Rightarrow> 't \<Rightarrow> ('x, 't) collab"
  cross_entropy :: "'t \<Rightarrow> matrix \<Rightarrow> 't \<Rightarrow> bool \<Rightarrow> ('x, real) collab"
  eval_batch :: "data_iter \<Rightarrow> bool \<Rightarrow> ('x, real \<times> 't option) collab"
  train_batch :: "data_iter \<Rightarrow> ('x, real) collab"
  backward :: "real \<Rightarrow> ('x, unit) collab"
  step :: "('x, unit) collab"
  reduce_losses :: "real list \<Rightarrow> ('x, real list) collab"
  mean :: "real list \<Rightarrow> real"
  optimizer_overflow :: "'x engine \<Rightarrow> bool option"
  optimizer_param_groups :: "'x engine \<Rightarrow> (string \<rightharpoonup> real) list option"
  optimizer_cur_scale :: "'x engine \<Rightarrow> real option"
  get_noise_scale_logger :: "('x, unit) collab"
  noise_scale_update :: "('x, unit) collab"
  overflow_monitor :: "('x, unit) collab"
  overflow_monitor_check :: "int \<Rightarrow> ('x, unit) collab"
  training_log ::
    "(string \<rightharpoonup> real) \<Rightarrow> real \<Rightarrow> int \<Rightarrow> real option \<Rightarrow> bool \<Rightarrow> int \<Rightarrow> ('x, bool) collab"
  save_checkpoint :: "int \<Rightarrow> ('x, unit) collab"
  report_results :: "(string \<rightharpoonup> result_val) \<Rightarrow> int \<Rightarrow> ('x, unit) collab"
  barrier :: "('x, unit) collab"
  get_rank :: "('x, int) collab"
  tokens_per_char :: "data_iter \<Rightarrow> ('x, real) collab"
  checkpointing_reset :: "('x, unit) collab"
  run_eval_harness :: "string list \<Rightarrow> ('x, string \<rightharpoonup> result_val) collab"

text \<open>
  \<^verbatim>\<open>neox_args.timers(name)\<close> followed by a method (\<open>TGet\<close>: the bare call); calling
  \<^verbatim>\<open>None\<close> is a \<^verbatim>\<open>TypeError\<close>.
\<close>

definition timer :: "('x, 't) env \<Rightarrow> neox_args \<Rightarrow> string \<Rightarrow> timer_op \<Rightarrow> ('x, unit) prog" where
  "timer env a name op =
     (if timers_set a then call (EvTimer name op) (timers env name op) else raise TypeError)"

section \<open>Batch producer\<close>

text \<open>
  \<^verbatim>\<open>_get_batch\<close>: broadcast, take the \<^verbatim>\<open>"text"\<close> field, slice.  On a 2D tensor
  \<^verbatim>\<open>t[:, 1:]\<close> drops the first column and \<^verbatim>\<open>t[:, :-1]\<close> the last one; neither raises
  on short rows.  \<^verbatim>\<open>.long()\<close> is the identity on int64 entries.
\<close>

definition u_get_batch ::
  "('x, 't) env \<Rightarrow> neox_args \<Rightarrow> 64 word \<Rightarrow> string list \<Rightarrow> (string \<rightharpoonup> matrix) option \<Rightarrow>
     ('x, matrix \<times> matrix \<times> 't \<times> 't \<times> 't) prog" where
  "u_get_batch env a eod keys data =
     bnd (call EvBroadcastData (broadcast_data env keys data)) (\<lambda>data_b.
       case data_b ''text'' of
         None \<Rightarrow> raise KeyError
       | Some tokens_u \<Rightarrow>
           bnd (call EvMasks
                  (get_ltor_masks_and_position_ids env (map butlast tokens_u) eod (eod_mask_loss a)))
             (\<lambda>(attention_mask, loss_mask, position_ids).
                ret (map butlast tokens_u, map (drop 1) tokens_u,
                     loss_mask, attention_mask, position_ids)))"

definition get_batch ::
  "('x, 't) env \<Rightarrow> neox_args \<Rightarrow> data_iter \<Rightarrow> ('x, matrix \<times> matrix \<times> 't \<times> 't \<times> 't) prog" where
  "get_batch env a data_iterator =
     bnd (if data_iterator \<noteq> NoIter
          then bnd (call (EvNext data_iterator) (next_batch env data_iterator)) (\<lambda>d. ret (Some d))
          else ret None)
       (\<lambda>data. u_get_batch env a (tokenizer_eod a) [''text''] data)"

definition get_batch_pipe ::
  "('x, 't) env \<Rightarrow> (string \<rightharpoonup> matrix) option \<Rightarrow> neox_args \<Rightarrow>
     ('x, (matrix \<times> 't \<times> 't) \<times> (matrix \<times> 't)) prog" where
  "get_batch_pipe env data a =
     bnd (u_get_batch env a (tokenizer_eod a) [''text''] data)
       (\<lambda>(tokens, labels, loss_mask, attention_mask, position_ids).
          ret ((tokens, position_ids, attention_mask), (labels, loss_mask)))"

section \<open>Training step\<close>

definition forward_step ::
  "('x, 't) env \<Rightarrow> neox_args \<Rightarrow> data_iter \<Rightarrow> bool \<Rightarrow> ('x, real \<times> 't option) prog" where
  "forward_step env a data_iterator return_logits =
     bnd (timer env a ''forward'' TGet) (\<lambda>u.
       if is_pipe_parallel a then
         call (EvEvalBatch data_iterator) (eval_batch env data_iterator return_logits)
       else
         bnd (if timers_set a then timer env a ''batch generator'' TStart else ret ()) (\<lambda>u.
         bnd (get_batch env a data_iterator)
           (\<lambda>(tokens, labels, loss_mask, attention_mask, position_ids).
         bnd (if timers_set a then timer env a ''batch generator'' TStop else ret ()) (\<lambda>u.
         bnd (call EvModelCall (model_call env tokens position_ids attention_mask)) (\<lambda>outputs.
         bnd (call EvCrossEntropy
                (cross_entropy env outputs labels loss_mask (fp16_lm_cross_entropy a))) (\<lambda>loss.
         ret (loss, if return_logits then Some outputs else None)))))))"

text \<open>
  \<^verbatim>\<open>def backward_step(neox_args, timers, model, loss)\<close>.  The parameter \<^verbatim>\<open>timers\<close> is
  read as the timers object of the run.
\<close>

definition backward_step_params :: "string list" where
  "backward_step_params = [''neox_args'', ''timers'', ''model'', ''loss'']"

definition backward_step :: "('x, 't) env \<Rightarrow> neox_args \<Rightarrow> real \<Rightarrow> ('x, unit) prog" where
  "backward_step env a loss =
     bnd (timer env a ''backward-backward'' TStart) (\<lambda>u.
     bnd (call EvBackward (backward env loss)) (\<lambda>u.
     bnd (timer env a ''backward-backward'' TStop) (\<lambda>u.
     timer env a ''backward-allreduce'' TReset)))"

text \<open>
  Python binds a call that passes keyword arguments only to a function with plain
  parameters (no defaults, no \<^verbatim>\<open>*args\<close>, no \<^verbatim>\<open>**kwargs\<close>) when the keywords are exactly
  the parameter names; an unexpected keyword and a missing argument are a
  \<^verbatim>\<open>TypeError\<close> raised before the body runs.
\<close>

definition bind_keywords :: "string list \<Rightarrow> string list \<Rightarrow> error + unit" where
  "bind_keywords parameters keywords =
     (if \<not> list_all (\<lambda>k. k \<in> set parameters) keywords then Inl TypeError
      else if \<not> list_all (\<lambda>p. p \<in> set keywords) parameters then Inl TypeError
      else Inr ())"

definition call_keywords :: "string list \<Rightarrow> string list \<Rightarrow> ('x, 'a) prog \<Rightarrow> ('x, 'a) prog" where
  "call_keywords parameters keywords body =
     (case bind_keywords parameters keywords of Inl e \<Rightarrow> raise e | Inr u \<Rightarrow> body)"

definition train_step_pipe ::
  "('x, 't) env \<Rightarrow> neox_args \<Rightarrow> data_iter \<Rightarrow> ('x, string \<rightharpoonup> real) prog" where
  "train_step_pipe env a data_iterator =
     bnd (call (EvTrainBatch data_iterator) (train_batch env data_iterator)) (\<lambda>loss.
     bnd (for_each
            [''forward'', ''backward'', ''allreduce'', ''optimizer'', ''batch generator'',
             ''data loader'']
            (\<lambda>t. timer env a t TReset)) (\<lambda>u.
     ret [''lm_loss'' \<mapsto> loss]))"

text \<open>
  One micro-batch of the manual branch of \<^verbatim>\<open>train_step\<close>; \<open>losses\<close> is the list the
  loop appends to.  The call of \<^verbatim>\<open>backward_step\<close> passes the keywords
  \<^verbatim>\<open>neox_args\<close>, \<^verbatim>\<open>optimizer\<close>, \<^verbatim>\<open>model\<close>, \<^verbatim>\<open>loss\<close>.
\<close>

definition micro_batch ::
  "('x, 't) env \<Rightarrow> neox_args \<Rightarrow> data_iter \<Rightarrow> real list \<Rightarrow> ('x, real list) prog" where
  "micro_batch env a data_iterator losses =
     bnd (timer env a ''forward'' TStart) (\<lambda>u.
     bnd (forward_step env a data_iterator False) (\<lambda>(loss, logits).
     bnd (timer env a ''forward'' TStop) (\<lambda>u.
     bnd (timer env a ''backward'' TStart) (\<lambda>u.
     bnd (call_keywords backward_step_params [''neox_args'', ''optimizer'', ''model'', ''loss'']
            (backward_step env a loss)) (\<lambda>u.
     bnd (timer env a ''backward'' TStop) (\<lambda>u.
     bnd (timer env a ''optimizer'' TStart) (\<lambda>u.
     bnd (call EvStep (step env)) (\<lambda>u.
     bnd (timer env a ''optimizer'' TStop) (\<lambda>u.
     ret (losses @ [loss]))))))))))"

definition train_step ::
  "('x, 't) env \<Rightarrow> neox_args \<Rightarrow> data_iter \<Rightarrow> ('x, (string \<rightharpoonup> real) \<times> int) prog" where
  "train_step env a data_iterator =
     bnd (if is_pipe_parallel a then train_step_pipe env a data_iterator
          else
            bnd (for_range (nat (gradient_accumulation_steps a))
                   (micro_batch env a data_iterator) []) (\<lambda>losses.
            bnd (call EvReduceLosses (reduce_losses env losses)) (\<lambda>reduced.
            ret [''lm_loss'' \<mapsto> mean env reduced]))) (\<lambda>loss_dict.
     bnd (if precision a = ''fp16'' then observe (optimizer_overflow env) else ret False)
       (\<lambda>overflow.
     if overflow then ret (loss_dict, 1) else ret (loss_dict, 0)))"

section \<open>Evaluation\<close>

text \<open>
  \<^verbatim>\<open>evaluate\<close> is always called with \<^verbatim>\<open>forward_step\<close> as its forward function.  The
  loop \<^verbatim>\<open>while iteration < eval_iters\<close> carries the counter and the list of losses;
  \<^verbatim>\<open>iteration % log_interval\<close> is evaluated only when \<^verbatim>\<open>verbose\<close> is set.
\<close>

function eval_loop ::
  "('x, 't) env \<Rightarrow> neox_args \<Rightarrow> data_iter \<Rightarrow> bool \<Rightarrow> int \<Rightarrow> real list \<Rightarrow> ('x, real list) prog" where
  "eval_loop env a data_iterator verbose iter losses s =
     (if iter < eval_iters a then
        bnd (if verbose \<and> log_interval a = 0 then raise ZeroDivisionError else ret ()) (\<lambda>u.
        bnd (for_range
               (if is_pipe_parallel a then 1 else nat (gradient_accumulation_steps a))
               (\<lambda>ls. bnd (forward_step env a data_iterator False)
                        (\<lambda>(loss, logits). ret (ls @ [loss])))
               losses) (\<lambda>losses'.
        bnd (if deepspeed_activation_checkpointing a
             then call EvCheckpointingReset (checkpointing_reset env) else ret ()) (\<lambda>u s'.
        eval_loop env a data_iterator verbose (iter + 1) losses' s'))) s
      else ret losses s)"
  by pat_completeness auto
termination
  by (relation "measure (\<lambda>(env, a, data_iterator, verbose, iter, losses, s).
                   nat (eval_iters a - iter))") auto

definition evaluate ::
  "('x, 't) env \<Rightarrow> neox_args \<Rightarrow> data_iter \<Rightarrow> bool \<Rightarrow> ('x, string \<rightharpoonup> result_val) prog" where
  "evaluate env a data_iterator verbose =
     bnd model_eval (\<lambda>u.
     bnd (no_grad
            (eval_loop env a
               (if char_level_ppl a then CharCounter data_iterator else data_iterator)
               verbose 0 [])) (\<lambda>losses.
     bnd (call EvReduceLosses (reduce_losses env losses)) (\<lambda>reduced.
     bnd (if char_level_ppl a then
            bnd (call EvTokensPerChar (tokens_per_char env (CharCounter data_iterator)))
              (\<lambda>tokens_per_char.
            ret [''lm_loss'' \<mapsto> RFloat (mean env reduced),
                 ''lm_loss_ppl'' \<mapsto> RFloat (exp (mean env reduced)),
                 ''lm_loss_char_lvl_ppl''
                   \<mapsto> RFloat (exp (mean env reduced * tokens_per_char))])
          else
            ret [''lm_loss'' \<mapsto> RFloat (mean env reduced),
                 ''lm_loss_ppl'' \<mapsto> RFloat (exp (mean env reduced))]) (\<lambda>eval_results.
     bnd (if eval_tasks a \<noteq> [] then
            bnd (call EvEvalHarness (run_eval_harness env (eval_tasks a))) (\<lambda>harness.
            ret (eval_results ++ harness))
          else ret eval_results) (\<lambda>eval_results.
     bnd model_train (\<lambda>u.
     ret eval_results))))))"

text \<open>
  \<^verbatim>\<open>evaluate_and_print_results\<close>: the loop that formats the results and hands them to
  the metric sink is one call of the collaborator \<open>report_results\<close>.
\<close>

definition evaluate_and_print_results ::
  "('x, 't) env \<Rightarrow> neox_args \<Rightarrow> data_iter \<Rightarrow> int \<Rightarrow> bool \<Rightarrow> ('x, unit) prog" where
  "evaluate_and_print_results env a data_iterator iter verbose =
     bnd (evaluate env a data_iterator verbose) (\<lambda>total_loss_dict.
     call (EvReportResults iter) (report_results env total_loss_dict iter))"

section \<open>Training loop\<close>

text \<open>
  Truth values of the optional settings: \<^verbatim>\<open>None\<close>, \<^verbatim>\<open>0\<close> and the empty string are
  false.  \<open>interval_hit x i\<close> is \<^verbatim>\<open>x and i % x == 0\<close>; Python's \<^verbatim>\<open>%\<close> on integers is
  \<open>mod\<close>.
\<close>

definition interval_hit :: "int option \<Rightarrow> int \<Rightarrow> bool" where
  "interval_hit x i = (case x of None \<Rightarrow> False | Some n \<Rightarrow> n \<noteq> 0 \<and> i mod n = 0)"

definition truthy_str :: "string option \<Rightarrow> bool" where
  "truthy_str x = (case x of None \<Rightarrow> False | Some t \<Rightarrow> t \<noteq> [])"

definition learning_rate :: "(string \<rightharpoonup> real) list \<Rightarrow> real" where
  "learning_rate groups =
     (case groups of [] \<Rightarrow> 0 | g # gs \<Rightarrow> (case g ''lr'' of None \<Rightarrow> 0 | Some v \<Rightarrow> v))"

function train_loop ::
  "('x, 't) env \<Rightarrow> neox_args \<Rightarrow> data_iter \<Rightarrow> data_iter \<Rightarrow> int \<Rightarrow> bool \<Rightarrow> ('x, int) prog" where
  "train_loop env a train_data_iterator valid_data_iterator iter report_memory_flag s =
     (if iter < train_iters a then
        bnd (train_step env a train_data_iterator) (\<lambda>(loss_dict, skipped_iter).
        bnd (call (EvOverflowCheck skipped_iter) (overflow_monitor_check env skipped_iter)) (\<lambda>u.
        bnd (if log_gradient_noise_scale a
             then call EvNoiseScaleUpdate (noise_scale_update env) else ret ()) (\<lambda>u.
        bnd (observe (optimizer_param_groups env)) (\<lambda>groups.
        bnd (if precision a = ''fp16''
             then bnd (observe (optimizer_cur_scale env)) (\<lambda>c. ret (Some c))
             else ret None) (\<lambda>loss_scale.
        bnd (call (EvTrainingLog (iter + 1))
               (training_log env loss_dict (learning_rate groups) (iter + 1) loss_scale
                  report_memory_flag skipped_iter)) (\<lambda>report_memory_flag'.
        bnd (if truthy_str (save a) \<and> interval_hit (save_interval a) (iter + 1)
             then call (EvSaveCheckpoint (iter + 1)) (save_checkpoint env (iter + 1))
             else ret ()) (\<lambda>u.
        bnd (if interval_hit (eval_interval a) (iter + 1) \<and> do_valid a
             then evaluate_and_print_results env a valid_data_iterator (iter + 1) False
             else ret ()) (\<lambda>u s'.
        if interval_hit (exit_interval a) (iter + 1) then
          bnd (call EvBarrier (barrier env)) (\<lambda>u.
          bnd (call EvGetRank (get_rank env)) (\<lambda>rank.
          raise SystemExit)) s'
        else
          train_loop env a train_data_iterator valid_data_iterator (iter + 1)
            report_memory_flag' s')))))))) s
      else ret iter s)"
  by pat_completeness auto
termination
  by (relation "measure (\<lambda>(env, a, train_data_iterator, valid_data_iterator, iter,
                   report_memory_flag, s). nat (train_iters a - iter))") auto

definition train ::
  "('x, 't) env \<Rightarrow> neox_args \<Rightarrow> data_iter \<Rightarrow> data_iter \<Rightarrow> ('x, int) prog" where
  "train env a train_data_iterator valid_data_iterator =
     bnd model_train (\<lambda>u.
     bnd (timer env a ''interval time'' TStart) (\<lambda>u.
     bnd (call EvNoiseScaleLogger (get_noise_scale_logger env)) (\<lambda>u.
     bnd (call EvOverflowMonitor (overflow_monitor env)) (\<lambda>u.
     train_loop env a train_data_iterator valid_data_iterator (iteration a) True))))"

section \<open>Vocabulary of the proofs\<close>

text \<open>
  The recursive equations of the two loops are unfolded by hand.
\<close>

declare eval_loop.simps [simp del] train_loop.simps [simp del]

text \<open>
  \<open>post Q m\<close>: every run of \<open>m\<close> relates its start state, the exception it ends with
  (\<open>None\<close> for a return) and its end state by \<open>Q\<close>.  \<open>good Q\<close> are the closure
  properties that let \<open>Q\<close> pass through sequencing; \<open>call_ok A F Q\<close> says that a traced
  call of an event in \<open>A\<close> whose engine change satisfies \<open>F\<close> establishes \<open>Q\<close>;
  \<open>eval_sat F env\<close> says that every collaborator \<^verbatim>\<open>evaluate\<close> calls changes the engine within
  \<open>F\<close>, \<open>env_sat F env\<close> that every collaborator does.
  The event classes: what a forward pass calls, what a training step calls, what
  \<^verbatim>\<open>evaluate\<close> calls outside its loop.
\<close>

definition err :: "error + 'a \<Rightarrow> error option" where
  "err r = (case r of Inl e \<Rightarrow> Some e | Inr x \<Rightarrow> None)"

definition post :: "('x st \<Rightarrow> error option \<Rightarrow> 'x st \<Rightarrow> bool) \<Rightarrow> ('x, 'a) prog \<Rightarrow> bool" where
  "post Q m = (\<forall>s. Q s (err (fst (m s))) (snd (m s)))"

definition good :: "('x st \<Rightarrow> error option \<Rightarrow> 'x st \<Rightarrow> bool) \<Rightarrow> bool" where
  "good Q = ((\<forall>s. Q s None s) \<and> (\<forall>s e. e \<noteq> SystemExit \<longrightarrow> Q s (Some e) s)
             \<and> (\<forall>s s1 eo s2. Q s None s1 \<longrightarrow> Q s1 eo s2 \<longrightarrow> Q s eo s2))"

definition call_ok ::
  "(event \<Rightarrow> bool) \<Rightarrow> ('x engine \<Rightarrow> 'x engine \<Rightarrow> bool) \<Rightarrow>
     ('x st \<Rightarrow> error option \<Rightarrow> 'x st \<Rightarrow> bool) \<Rightarrow> bool" where
  "call_ok A F Q =
     (\<forall>s e' ev eo. A ev \<longrightarrow> F (eng s) e' \<longrightarrow> eo \<in> {None, Some External}
        \<longrightarrow> Q s eo (s\<lparr>eng := e', trace := trace s @ [(ev, grad_enabled s)]\<rparr>))"

definition sat :: "('x engine \<Rightarrow> 'x engine \<Rightarrow> bool) \<Rightarrow> ('x, 'a) collab \<Rightarrow> bool" where
  "sat F c = (\<forall>e. F e (snd (c e)))"

definition eval_sat :: "('x engine \<Rightarrow> 'x engine \<Rightarrow> bool) \<Rightarrow> ('x, 't) env \<Rightarrow> bool" where
  "eval_sat F env =
     ((\<forall>name op. sat F (timers env name op))
      \<and> (\<forall>it. sat F (next_batch env it))
      \<and> (\<forall>keys data. sat F (broadcast_data env keys data))
      \<and> (\<forall>tokens eod mask. sat F (get_ltor_masks_and_position_ids env tokens eod mask))
      \<and> (\<forall>tokens pos att. sat F (model_call env tokens pos att))
      \<and> (\<forall>outputs labels mask fp. sat F (cross_entropy env outputs labels mask fp))
      \<and> (\<forall>it logits. sat F (eval_batch env it logits))
      \<and> sat F (checkpointing_reset env)
      \<and> (\<forall>losses. sat F (reduce_losses env losses))
      \<and> (\<forall>it. sat F (tokens_per_char env it))
      \<and> (\<forall>tasks. sat F (run_eval_harness env tasks))
      \<and> (\<forall>b. sat F (set_mode b)))"

definition env_sat :: "('x engine \<Rightarrow> 'x engine \<Rightarrow> bool) \<Rightarrow> ('x, 't) env \<Rightarrow> bool" where
  "env_sat F env =
     (eval_sat F env
      \<and> (\<forall>it. sat F (train_batch env it))
      \<and> (\<forall>loss. sat F (backward env loss))
      \<and> sat F (step env)
      \<and> sat F (get_noise_scale_logger env)
      \<and> sat F (noise_scale_update env)
      \<and> sat F (overflow_monitor env)
      \<and> (\<forall>skipped. sat F (overflow_monitor_check env skipped))
      \<and> (\<forall>loss_dict rate iter scale flag skipped.
            sat F (training_log env loss_dict rate iter scale flag skipped))
      \<and> (\<forall>iter. sat F (save_checkpoint env iter))
      \<and> (\<forall>results iter. sat F (report_results env results iter))
      \<and> sat F (barrier env)
      \<and> sat F (get_rank env))"

fun fwd_event :: "event \<Rightarrow> bool" where
  "fwd_event (EvTimer name op) = True"
| "fwd_event (EvNext it) = True"
| "fwd_event EvBroadcastData = True"
| "fwd_event EvMasks = True"
| "fwd_event EvModelCall = True"
| "fwd_event EvCrossEntropy = True"
| "fwd_event (EvEvalBatch it) = True"
| "fwd_event EvCheckpointingReset = True"
| "fwd_event ev = False"

fun step_event :: "event \<Rightarrow> bool" where
  "step_event (EvTrainBatch it) = True"
| "step_event EvBackward = True"
| "step_event EvStep = True"
| "step_event EvReduceLosses = True"
| "step_event ev = fwd_event ev"

fun outer_eval_event :: "event \<Rightarrow> bool" where
  "outer_eval_event EvModelEval = True"
| "outer_eval_event EvModelTrain = True"
| "outer_eval_event EvReduceLosses = True"
| "outer_eval_event EvTokensPerChar = True"
| "outer_eval_event EvEvalHarness = True"
| "outer_eval_event ev = False"

fun is_training_log :: "event \<Rightarrow> bool" where
  "is_training_log (EvTrainingLog i) = True"
| "is_training_log ev = False"

definition appended :: "(event \<times> bool \<Rightarrow> bool) \<Rightarrow> 'x st \<Rightarrow> 'x st \<Rightarrow> bool" where
  "appended P s s' = (\<exists>evs. trace s' = trace s @ evs \<and> list_all P evs)"

definition traced ::
  "(event \<Rightarrow> bool) \<Rightarrow> 'x st \<Rightarrow> error option \<Rightarrow> 'x st \<Rightarrow> bool" where
  "traced P s eo s' =
     (grad_enabled s' = grad_enabled s
      \<and> appended (\<lambda>(ev, g). g = grad_enabled s \<and> P ev) s s')"

definition framed :: "('x \<Rightarrow> 'o) \<Rightarrow> 'x st \<Rightarrow> error option \<Rightarrow> 'x st \<Rightarrow> bool" where
  "framed obs s eo s' = (obs (ext (eng s')) = obs (ext (eng s)))"

text \<open>\<open>fails m\<close>: no run of \<open>m\<close> returns.\<close>

definition fails :: "('x, 'a) prog \<Rightarrow> bool" where
  "fails m = (\<forall>s. isl (fst (m s)))"

text \<open>\<open>returns m\<close>: every run of \<open>m\<close> returns.\<close>

definition returns :: "('x, 'a) prog \<Rightarrow> bool" where
  "returns m = (\<forall>s. \<not> isl (fst (m s)))"

text \<open>A matrix of \<open>rows\<close> rows that all have \<open>cols\<close> entries.\<close>

definition shape :: "matrix \<Rightarrow> nat \<Rightarrow> nat \<Rightarrow> bool" where
  "shape m rows cols = (length m = rows \<and> list_all (\<lambda>row. length row = cols) m)"

section \<open>Concrete inputs\<close>

definition args0 :: neox_args where
  "args0 =
     \<lparr>is_pipe_parallel = True, precision = ''fp16'', gradient_accumulation_steps = 1,
      train_iters = 1000, iteration = 0, exit_interval = None, save = None,
      save_interval = None, eval_interval = None, do_valid = False,
      log_gradient_noise_scale = False, eval_iters = 1, log_interval = 1,
      char_level_ppl = False, eval_tasks = [], deepspeed_activation_checkpointing = False,
      timers_set = True, eod_mask_loss = False, fp16_lm_cross_entropy = False,
      tokenizer_eod = 0, no_load_optim = False, optimizer_type = ''Adam'',
      optimizer = PyDict [(''type'', PyStr ''Adam''), (''params'', PyDict [(''lr'', PyFloat 1)])],
      weight_decay = 0, use_bnb_optimizer = False, lr_decay_iters = None,
      warmup = 1 / 100, lr = 1, min_lr = 0, lr_decay_style = ''cosine'',
      use_checkpoint_lr_scheduler = False, override_lr_scheduler = False\<rparr>"

definition benv0 :: "unit build_env" where
  "benv0 =
     \<lparr>get_params_for_weight_decay_optimization = (\<lambda>m a. Some []),
      filter_trainable_params = (\<lambda>gs. Some gs),
      bitsandbytes_installed = False,
      apex_installed = False\<rparr>"

definition args_onebit :: neox_args where
  "args_onebit = args0\<lparr>optimizer_type := ''OneBitAdam''\<rparr>"

definition args_lamb :: neox_args where
  "args_lamb = args0\<lparr>optimizer_type := ''lamb''\<rparr>"

definition args_cpu :: neox_args where
  "args_cpu = args0\<lparr>optimizer_type := ''cpu_torch_adam''\<rparr>"

definition args_sm3 :: neox_args where
  "args_sm3 = args0\<lparr>optimizer_type := ''SM3''\<rparr>"

definition ok :: "'a \<Rightarrow> ('x, 'a) collab" where
  "ok x e = (Some x, e)"

definition env0 :: "(nat, unit) env" where
  "env0 =
     \<lparr>timers = (\<lambda>name op. ok ()),
      next_batch = (\<lambda>it. ok [''text'' \<mapsto> [[1, 2, 3], [4, 5, 6]]]),
      broadcast_data = (\<lambda>keys data e. (data, e)),
      get_ltor_masks_and_position_ids = (\<lambda>tokens eod mask. ok ((), (), ())),
      model_call = (\<lambda>tokens position_ids attention_mask. ok ()),
      cross_entropy = (\<lambda>outputs labels loss_mask fp16. ok 2),
      eval_batch = (\<lambda>it return_logits. ok (2, None)),
      train_batch = (\<lambda>it e. (Some 2, e\<lparr>ext := Suc (ext e)\<rparr>)),
      backward = (\<lambda>loss. ok ()),
      step = (\<lambda>e. (Some (), e\<lparr>ext := Suc (ext e)\<rparr>)),
      reduce_losses = (\<lambda>losses. ok losses),
      mean = (\<lambda>xs. sum_list xs / real (length xs)),
      optimizer_overflow = (\<lambda>e. Some True),
      optimizer_param_groups = (\<lambda>e. Some [[''lr'' \<mapsto> 1]]),
      optimizer_cur_scale = (\<lambda>e. Some 1),
      get_noise_scale_logger = ok (),
      noise_scale_update = ok (),
      overflow_monitor = ok (),
      overflow_monitor_check = (\<lambda>skipped. ok ()),
      training_log = (\<lambda>loss_dict rate iter loss_scale flag skipped. ok False),
      save_checkpoint = (\<lambda>iter. ok ()),
      report_results = (\<lambda>results iter. ok ()),
      barrier = ok (),
      get_rank = ok 0,
      tokens_per_char = (\<lambda>it. ok 1),
      checkpointing_reset = ok (),
      run_eval_harness = (\<lambda>tasks. ok [''lambada'' \<mapsto> RDict [(''acc'', 1)]])\<rparr>"

definition s0 :: "nat st" where
  "s0 = \<lparr>eng = \<lparr>training = False, ext = 0\<rparr>, grad_enabled = True, trace = []\<rparr>"

definition args_manual :: neox_args where
  "args_manual = args0\<lparr>is_pipe_parallel := False\<rparr>"

definition args_bf16 :: neox_args where
  "args_bf16 = args0\<lparr>precision := ''bfloat16''\<rparr>"

definition args_eval :: neox_args where
  "args_eval = args0\<lparr>is_pipe_parallel := False, eval_tasks := [''lambada'']\<rparr>"

definition args_ppl :: neox_args where
  "args_ppl = args0\<lparr>is_pipe_parallel := False, char_level_ppl := True\<rparr>"

definition raw0 :: matrix where
  "raw0 = [[1, 2, 3], [4, 5, 6]]"

section \<open>Properties of the builders\<close>

lemma lower_names:
  "lower ''OneBitAdam'' = ''onebitadam''"
  "lower ''CPU_Adam'' = ''cpu_adam''"
  "lower ''cpu_torch_adam'' = ''cpu_torch_adam''"
  "lower ''Adam'' = ''adam''"
  "lower ''lamb'' = ''lamb''"
  "lower ''SM3'' = ''sm3''"
  by code_simp+

text \<open>
  Claim C4.  When a scheduler is built (optimizer loading enabled, optimizer type not
  onebitadam), \<open>num_iters\<close> is \<open>lr_decay_iters\<close> when that is set and \<open>train_iters\<close>
  otherwise, the warmup duration is \<open>warmup * num_iters\<close> and the total duration is
  \<open>max 1 num_iters\<close>; for \<open>warmup = 0.01\<close>, \<open>train_iters = 1000\<close> and no
  \<open>lr_decay_iters\<close> the total duration is 1000 and the warmup duration is 10.
\<close>

theorem get_learning_rate_scheduler_durations:
  assumes "\<not> no_load_optim a" and "lower (optimizer_type a) \<noteq> ''onebitadam''"
  shows "\<exists>sch. get_learning_rate_scheduler opt a = Some sch
           \<and> warmup_iter sch
               = warmup a * of_int (case lr_decay_iters a of Some n \<Rightarrow> n | None \<Rightarrow> train_iters a)
           \<and> total_iters sch
               = max 1 (case lr_decay_iters a of Some n \<Rightarrow> n | None \<Rightarrow> train_iters a)
           \<and> (warmup a = 1 / 100 \<and> train_iters a = 1000 \<and> lr_decay_iters a = None
                \<longrightarrow> total_iters sch = 1000 \<and> warmup_iter sch = 10)"
  using assms by (simp add: get_learning_rate_scheduler_def num_iters_def)

theorem get_learning_rate_scheduler_durations_witness:
  "\<not> no_load_optim args0 \<and> lower (optimizer_type args0) \<noteq> ''onebitadam''
   \<and> (\<exists>sch. get_learning_rate_scheduler None args0 = Some sch
          \<and> total_iters sch = 1000 \<and> warmup_iter sch = 10)"
proof -
  have h1: "\<not> no_load_optim args0" by (simp add: args0_def)
  have h2: "lower (optimizer_type args0) \<noteq> ''onebitadam''"
    by (simp add: args0_def lower_names)
  have h3: "warmup args0 = 1 / 100 \<and> train_iters args0 = 1000 \<and> lr_decay_iters args0 = None"
    by (simp add: args0_def)
  from get_learning_rate_scheduler_durations [OF h1 h2, of None] h3
  have "\<exists>sch. get_learning_rate_scheduler None args0 = Some sch
          \<and> total_iters sch = 1000 \<and> warmup_iter sch = 10"
    by blast
  with h1 h2 show ?thesis by blast
qed

text \<open>
  Claim C6.  With optimizer loading disabled, \<open>get_optimizer\<close> returns
  \<open>(None, None)\<close> whatever the optimizer type, the configuration block, the model and
  the environment are, and \<open>get_learning_rate_scheduler\<close> returns \<open>None\<close>.
\<close>

theorem no_load_optim_returns_none:
  assumes "no_load_optim a"
  shows "get_optimizer env model a = Inr (None, None)
         \<and> get_learning_rate_scheduler opt a = None"
  using assms by (simp add: get_optimizer_def get_learning_rate_scheduler_def)

theorem no_load_optim_returns_none_witness:
  "no_load_optim (args0\<lparr>no_load_optim := True, optimizer_type := ''lamb''\<rparr>)
   \<and> get_optimizer benv0 () (args0\<lparr>no_load_optim := True, optimizer_type := ''lamb''\<rparr>)
       = Inr (None, None)
   \<and> get_learning_rate_scheduler None (args0\<lparr>no_load_optim := True, optimizer_type := ''lamb''\<rparr>)
       = None"
proof -
  have h: "no_load_optim (args0\<lparr>no_load_optim := True, optimizer_type := ''lamb''\<rparr>)"
    by simp
  from no_load_optim_returns_none [OF h, of benv0 "()" None] h show ?thesis by blast
qed

lemma getitem_not_str:
  "py_getitem v k = Inr p \<Longrightarrow> \<not> py_eq_str v s"
  by (cases v) simp_all

lemma construct_class:
  "construct cls groups wd cfg = Inr ob \<Longrightarrow> opt_class ob = cls \<and> opt_param_groups ob = groups"
  by (auto simp: construct_def split: sum.splits pyval.splits option.splits if_splits)

lemma with_groups_Inr:
  "with_groups groups r = Inr (x, pg) \<Longrightarrow> \<exists>ob. r = Inr ob \<and> x = Some ob \<and> pg = Some groups"
  by (auto simp: with_groups_def split: sum.splits)

lemma with_groups_Inl:
  "with_groups groups r = Inl e \<Longrightarrow> r = Inl e"
  by (auto simp: with_groups_def split: sum.splits)

lemma construct_no_ValueError:
  "construct cls groups wd cfg \<noteq> Inl (ValueError msg)"
  by (cases cfg) (auto simp: construct_def split: sum.splits pyval.splits option.splits if_splits)

lemma init_optimizer_class:
  assumes "init_optimizer env a groups = Inr (Some ob, pg)"
    and "\<not> py_eq_str (optimizer a) ''cpu_torch_adam''"
  shows "(lower (optimizer_type a), opt_class ob)
           \<in> set [(''cpu_adam'', DeepSpeedCPUAdam), (''cpu_torch_adam'', DeepSpeedCPUAdam),
                   (''sm3'', SM3), (''madgrad_wd'', Madgrad_wd), (''adam'', Adam8bit),
                   (''adam'', ApexFusedAdam), (''adam'', DeepSpeedFusedAdam)]"
  using assms
  by (auto simp: init_optimizer_def split: if_splits dest!: with_groups_Inr construct_class)

lemma init_optimizer_unrecognized:
  "lower (optimizer_type a) \<notin> set [''cpu_adam'', ''cpu_torch_adam'', ''onebitadam'', ''sm3'', ''madgrad_wd'', ''adam'']
   \<Longrightarrow> init_optimizer env a groups = Inl (ValueError (''Optimizer type '' @ optimizer_type a @ '' not recognized''))"
  by (simp add: init_optimizer_def)

lemma init_optimizer_recognized:
  "lower (optimizer_type a) \<in> set [''cpu_adam'', ''cpu_torch_adam'', ''onebitadam'', ''sm3'', ''madgrad_wd'', ''adam'']
   \<Longrightarrow> init_optimizer env a groups \<noteq> Inl (ValueError msg)"
  by (auto simp: init_optimizer_def dest!: with_groups_Inl simp: construct_no_ValueError)

lemma construct_dict:
  assumes "py_getitem cfg ''params'' = Inr (PyDict kw)"
  shows "with_groups groups (construct cls groups None cfg)
           = Inr (Some \<lparr>opt_class = cls, opt_param_groups = groups, opt_kwargs = kw\<rparr>,
                  Some groups)"
    and "''weight_decay'' \<notin> set (map fst kw) \<Longrightarrow>
         with_groups groups (construct cls groups (Some w) cfg)
           = Inr (Some \<lparr>opt_class = cls, opt_param_groups = groups,
                         opt_kwargs = (''weight_decay'', PyFloat w) # kw\<rparr>,
                  Some groups)"
  using assms by (simp_all add: construct_def with_groups_def)

lemma init_optimizer_constructs:
  assumes p: "py_getitem (optimizer a) ''params'' = Inr (PyDict kw)"
  shows "lower (optimizer_type a) = ''sm3''
           \<Longrightarrow> init_optimizer env a groups
                 = Inr (Some \<lparr>opt_class = SM3, opt_param_groups = groups, opt_kwargs = kw\<rparr>,
                        Some groups)"
    and "''weight_decay'' \<notin> set (map fst kw) \<Longrightarrow>
         lower (optimizer_type a) \<in> set [''cpu_adam'', ''cpu_torch_adam'']
           \<Longrightarrow> init_optimizer env a groups
                 = Inr (Some \<lparr>opt_class = DeepSpeedCPUAdam, opt_param_groups = groups,
                               opt_kwargs = (''weight_decay'', PyFloat (weight_decay a)) # kw\<rparr>,
                        Some groups)"
    and "''weight_decay'' \<notin> set (map fst kw) \<Longrightarrow>
         lower (optimizer_type a) = ''madgrad_wd''
           \<Longrightarrow> init_optimizer env a groups
                 = Inr (Some \<lparr>opt_class = Madgrad_wd, opt_param_groups = groups,
                               opt_kwargs = (''weight_decay'', PyFloat (weight_decay a)) # kw\<rparr>,
                        Some groups)"
    and "''weight_decay'' \<notin> set (map fst kw) \<Longrightarrow>
         lower (optimizer_type a) = ''adam''
           \<Longrightarrow> init_optimizer env a groups
                 = (if use_bnb_optimizer a \<and> \<not> bitsandbytes_installed env
                    then Inl PyException
                    else Inr (Some \<lparr>opt_class =
                                       (if use_bnb_optimizer a then Adam8bit
                                        else if apex_installed env then ApexFusedAdam
                                        else DeepSpeedFusedAdam),
                                     opt_param_groups = groups,
                                     opt_kwargs =
                                       (''weight_decay'', PyFloat (weight_decay a)) # kw\<rparr>,
                              Some groups))"
proof -
  from p have ne: "\<not> py_eq_str (optimizer a) ''cpu_torch_adam''" by (rule getitem_not_str)
  note c = construct_dict [OF p]
  show "lower (optimizer_type a) = ''sm3''
           \<Longrightarrow> init_optimizer env a groups
                 = Inr (Some \<lparr>opt_class = SM3, opt_param_groups = groups, opt_kwargs = kw\<rparr>,
                        Some groups)"
    by (simp add: init_optimizer_def c)
  show "''weight_decay'' \<notin> set (map fst kw) \<Longrightarrow>
         lower (optimizer_type a) \<in> set [''cpu_adam'', ''cpu_torch_adam'']
           \<Longrightarrow> init_optimizer env a groups
                 = Inr (Some \<lparr>opt_class = DeepSpeedCPUAdam, opt_param_groups = groups,
                               opt_kwargs = (''weight_decay'', PyFloat (weight_decay a)) # kw\<rparr>,
                        Some groups)"
    using ne by (auto simp: init_optimizer_def c)
  show "''weight_decay'' \<notin> set (map fst kw) \<Longrightarrow>
         lower (optimizer_type a) = ''madgrad_wd''
           \<Longrightarrow> init_optimizer env a groups
                 = Inr (Some \<lparr>opt_class = Madgrad_wd, opt_param_groups = groups,
                               opt_kwargs = (''weight_decay'', PyFloat (weight_decay a)) # kw\<rparr>,
                        Some groups)"
    by (simp add: init_optimizer_def c)
  show "''weight_decay'' \<notin> set (map fst kw) \<Longrightarrow>
         lower (optimizer_type a) = ''adam''
           \<Longrightarrow> init_optimizer env a groups
                 = (if use_bnb_optimizer a \<and> \<not> bitsandbytes_installed env
                    then Inl PyException
                    else Inr (Some \<lparr>opt_class =
                                       (if use_bnb_optimizer a then Adam8bit
                                        else if apex_installed env then ApexFusedAdam
                                        else DeepSpeedFusedAdam),
                                     opt_param_groups = groups,
                                     opt_kwargs =
                                       (''weight_decay'', PyFloat (weight_decay a)) # kw\<rparr>,
                              Some groups))"
    by (simp add: init_optimizer_def c)
qed

text \<open>
  Claim C7.  With optimizer loading enabled, \<open>get_optimizer\<close> looks at the type string
  only through \<open>lower\<close>.  A string outside the six supported names never lets the
  function return.  Once the steps before the dispatch have gone through (the
  weight-decay partition, the \<^verbatim>\<open>["params"]\<close> subscript of the log line, the trainable
  filter): a string outside the six names gives the unrecognized-type \<open>ValueError\<close>
  and a supported name never gives that error; \<open>onebitadam\<close> gives the optimizer
  \<open>None\<close> with the parameter groups; every optimizer object returned belongs to the
  class of its branch; and when \<^verbatim>\<open>optimizer["params"]\<close> is a dict \<open>kw\<close>, \<open>sm3\<close>
  returns the \<open>SM3\<close> object built from the groups and \<open>kw\<close>, and, \<open>kw\<close> having no
  \<^verbatim>\<open>weight_decay\<close> key of its own, \<open>cpu_adam\<close> and \<open>cpu_torch_adam\<close> return the
  \<open>DeepSpeedCPUAdam\<close> object, \<open>madgrad_wd\<close> the \<open>madgrad_wd\<close> object and \<open>adam\<close> the
  \<open>Adam8bit\<close>, apex \<open>FusedAdam\<close> or DeepSpeed \<open>FusedAdam\<close> object (or raises
  \<open>Exception\<close> when the 8-bit variant is asked for without bitsandbytes), each built
  from the groups, the configured weight decay and \<open>kw\<close>.
\<close>

theorem get_optimizer_dispatch:
  assumes "\<not> no_load_optim a"
  shows "(lower (optimizer_type a)
            \<notin> set [''cpu_adam'', ''cpu_torch_adam'', ''onebitadam'', ''sm3'', ''madgrad_wd'', ''adam'']
          \<longrightarrow> (\<exists>e. get_optimizer env model a = Inl e))
       \<and> (get_params_for_weight_decay_optimization env model a = Some groups0
          \<and> py_getitem (optimizer a) ''params'' = Inr shown
          \<and> filter_trainable_params env (tag_model_parallel groups0) = Some groups
          \<longrightarrow>
            (lower (optimizer_type a)
               \<notin> set [''cpu_adam'', ''cpu_torch_adam'', ''onebitadam'', ''sm3'', ''madgrad_wd'', ''adam'']
             \<longrightarrow> get_optimizer env model a
                  = Inl (ValueError (''Optimizer type '' @ optimizer_type a @ '' not recognized'')))
          \<and> (lower (optimizer_type a)
               \<in> set [''cpu_adam'', ''cpu_torch_adam'', ''onebitadam'', ''sm3'', ''madgrad_wd'', ''adam'']
             \<longrightarrow> (\<forall>msg. get_optimizer env model a \<noteq> Inl (ValueError msg)))
          \<and> (lower (optimizer_type a) = ''onebitadam''
             \<longrightarrow> get_optimizer env model a = Inr (None, Some groups))
          \<and> (\<forall>ob pg. get_optimizer env model a = Inr (Some ob, pg)
             \<longrightarrow> (lower (optimizer_type a), opt_class ob)
                   \<in> set [(''cpu_adam'', DeepSpeedCPUAdam), (''cpu_torch_adam'', DeepSpeedCPUAdam),
                           (''sm3'', SM3), (''madgrad_wd'', Madgrad_wd), (''adam'', Adam8bit),
                           (''adam'', ApexFusedAdam), (''adam'', DeepSpeedFusedAdam)])
          \<and> (\<forall>kw. shown = PyDict kw \<longrightarrow>
                (lower (optimizer_type a) = ''sm3''
                   \<longrightarrow> get_optimizer env model a
                        = Inr (Some \<lparr>opt_class = SM3, opt_param_groups = groups,
                                      opt_kwargs = kw\<rparr>,
                               Some groups))
              \<and> (''weight_decay'' \<notin> set (map fst kw) \<longrightarrow>
                   (lower (optimizer_type a) \<in> set [''cpu_adam'', ''cpu_torch_adam'']
                      \<longrightarrow> get_optimizer env model a
                           = Inr (Some \<lparr>opt_class = DeepSpeedCPUAdam, opt_param_groups = groups,
                                         opt_kwargs =
                                           (''weight_decay'', PyFloat (weight_decay a)) # kw\<rparr>,
                                  Some groups))
                 \<and> (lower (optimizer_type a) = ''madgrad_wd''
                      \<longrightarrow> get_optimizer env model a
                           = Inr (Some \<lparr>opt_class = Madgrad_wd, opt_param_groups = groups,
                                         opt_kwargs =
                                           (''weight_decay'', PyFloat (weight_decay a)) # kw\<rparr>,
                                  Some groups))
                 \<and> (lower (optimizer_type a) = ''adam''
                      \<longrightarrow> get_optimizer env model a
                           = (if use_bnb_optimizer a \<and> \<not> bitsandbytes_installed env
                              then Inl PyException
                              else Inr (Some \<lparr>opt_class =
                                                 (if use_bnb_optimizer a then Adam8bit
                                                  else if apex_installed env then ApexFusedAdam
                                                  else DeepSpeedFusedAdam),
                                               opt_param_groups = groups,
                                               opt_kwargs =
                                                 (''weight_decay'', PyFloat (weight_decay a)) # kw\<rparr>,
                                        Some groups))))))"
proof (intro conjI impI allI)
  assume out: "lower (optimizer_type a)
      \<notin> set [''cpu_adam'', ''cpu_torch_adam'', ''onebitadam'', ''sm3'', ''madgrad_wd'', ''adam'']"
  show "\<exists>e. get_optimizer env model a = Inl e"
    using assms init_optimizer_unrecognized [OF out]
    by (auto simp: get_optimizer_def split: option.splits sum.splits)
next
  assume pre: "get_params_for_weight_decay_optimization env model a = Some groups0
          \<and> py_getitem (optimizer a) ''params'' = Inr shown
          \<and> filter_trainable_params env (tag_model_parallel groups0) = Some groups"
  then have eq: "get_optimizer env model a = init_optimizer env a groups"
    using assms by (simp add: get_optimizer_def)
  from pre have ne: "\<not> py_eq_str (optimizer a) ''cpu_torch_adam''"
    using getitem_not_str by blast
  {
    assume out: "lower (optimizer_type a)
      \<notin> set [''cpu_adam'', ''cpu_torch_adam'', ''onebitadam'', ''sm3'', ''madgrad_wd'', ''adam'']"
    show "get_optimizer env model a
            = Inl (ValueError (''Optimizer type '' @ optimizer_type a @ '' not recognized''))"
      using eq init_optimizer_unrecognized [OF out, of env groups] by simp
  }
  {
    fix msg
    assume inn: "lower (optimizer_type a)
      \<in> set [''cpu_adam'', ''cpu_torch_adam'', ''onebitadam'', ''sm3'', ''madgrad_wd'', ''adam'']"
    show "get_optimizer env model a \<noteq> Inl (ValueError msg)"
      using eq init_optimizer_recognized [OF inn, of env groups] by simp
  }
  {
    assume "lower (optimizer_type a) = ''onebitadam''"
    then show "get_optimizer env model a = Inr (None, Some groups)"
      using eq by (simp add: init_optimizer_def)
  }
  {
    fix ob pg
    assume "get_optimizer env model a = Inr (Some ob, pg)"
    then show "(lower (optimizer_type a), opt_class ob)
                   \<in> set [(''cpu_adam'', DeepSpeedCPUAdam), (''cpu_torch_adam'', DeepSpeedCPUAdam),
                           (''sm3'', SM3), (''madgrad_wd'', Madgrad_wd), (''adam'', Adam8bit),
                           (''adam'', ApexFusedAdam), (''adam'', DeepSpeedFusedAdam)]"
      using eq init_optimizer_class [OF _ ne] by metis
  }
  {
    fix kw
    assume "shown = PyDict kw"
    with pre have p: "py_getitem (optimizer a) ''params'' = Inr (PyDict kw)" by simp
    note c = init_optimizer_constructs [OF p, of env groups]
    {
      assume "lower (optimizer_type a) = ''sm3''"
      then show "get_optimizer env model a
                        = Inr (Some \<lparr>opt_class = SM3, opt_param_groups = groups,
                                      opt_kwargs = kw\<rparr>,
                               Some groups)"
        using eq c(1) by simp
    }
    {
      assume w: "''weight_decay'' \<notin> set (map fst kw)"
      {
        assume "lower (optimizer_type a) \<in> set [''cpu_adam'', ''cpu_torch_adam'']"
        then show "get_optimizer env model a
                           = Inr (Some \<lparr>opt_class = DeepSpeedCPUAdam, opt_param_groups = groups,
                                         opt_kwargs =
                                           (''weight_decay'', PyFloat (weight_decay a)) # kw\<rparr>,
                                  Some groups)"
          using eq c(2) [OF w] by simp
      }
      {
        assume "lower (optimizer_type a) = ''madgrad_wd''"
        then show "get_optimizer env model a
                           = Inr (Some \<lparr>opt_class = Madgrad_wd, opt_param_groups = groups,
                                         opt_kwargs =
                                           (''weight_decay'', PyFloat (weight_decay a)) # kw\<rparr>,
                                  Some groups)"
          using eq c(3) [OF w] by simp
      }
      {
        assume "lower (optimizer_type a) = ''adam''"
        then show "get_optimizer env model a
                           = (if use_bnb_optimizer a \<and> \<not> bitsandbytes_installed env
                              then Inl PyException
                              else Inr (Some \<lparr>opt_class =
                                                 (if use_bnb_optimizer a then Adam8bit
                                                  else if apex_installed env then ApexFusedAdam
                                                  else DeepSpeedFusedAdam),
                                               opt_param_groups = groups,
                                               opt_kwargs =
                                                 (''weight_decay'', PyFloat (weight_decay a)) # kw\<rparr>,
                                        Some groups))"
          using eq c(4) [OF w] by simp
      }
    }
  }
qed

theorem get_optimizer_dispatch_witness:
  "\<not> no_load_optim args_onebit
   \<and> lower (optimizer_type args_onebit) = ''onebitadam''
   \<and> get_optimizer benv0 () args_onebit = Inr (None, Some [])
   \<and> \<not> no_load_optim args_lamb
   \<and> lower (optimizer_type args_lamb)
        \<notin> set [''cpu_adam'', ''cpu_torch_adam'', ''onebitadam'', ''sm3'', ''madgrad_wd'', ''adam'']
   \<and> get_optimizer benv0 () args_lamb
        = Inl (ValueError ''Optimizer type lamb not recognized'')
   \<and> \<not> no_load_optim args_sm3
   \<and> optimizer_type args_sm3 = ''SM3''
   \<and> get_optimizer benv0 () args_sm3
        = Inr (Some \<lparr>opt_class = SM3, opt_param_groups = [],
                      opt_kwargs = [(''lr'', PyFloat 1)]\<rparr>, Some [])
   \<and> \<not> no_load_optim args0
   \<and> optimizer_type args0 = ''Adam''
   \<and> get_optimizer benv0 () args0
        = Inr (Some \<lparr>opt_class = DeepSpeedFusedAdam, opt_param_groups = [],
                      opt_kwargs = [(''weight_decay'', PyFloat 0), (''lr'', PyFloat 1)]\<rparr>,
               Some [])"
proof -
  have n1: "\<not> no_load_optim args_onebit" and n2: "\<not> no_load_optim args_lamb"
    and n3: "\<not> no_load_optim args_sm3" and n4: "\<not> no_load_optim args0"
    by (simp_all add: args_onebit_def args_lamb_def args_sm3_def args0_def)
  have l1: "lower (optimizer_type args_onebit) = ''onebitadam''"
    by (simp add: args_onebit_def lower_names)
  have l2: "lower (optimizer_type args_lamb)
        \<notin> set [''cpu_adam'', ''cpu_torch_adam'', ''onebitadam'', ''sm3'', ''madgrad_wd'', ''adam'']"
    by (simp add: args_lamb_def lower_names)
  have t3: "optimizer_type args_sm3 = ''SM3''" by (simp add: args_sm3_def)
  have l3: "lower (optimizer_type args_sm3) = ''sm3''"
    by (simp add: args_sm3_def lower_names)
  have t4: "optimizer_type args0 = ''Adam''" by (simp add: args0_def)
  have l4: "lower (optimizer_type args0) = ''adam''"
    by (simp add: args0_def lower_names)
  have p1: "get_params_for_weight_decay_optimization benv0 () args_onebit = Some []
      \<and> py_getitem (optimizer args_onebit) ''params'' = Inr (PyDict [(''lr'', PyFloat 1)])
      \<and> filter_trainable_params benv0 (tag_model_parallel []) = Some []"
    by (simp add: benv0_def args_onebit_def args0_def tag_model_parallel_def)
  have p2: "get_params_for_weight_decay_optimization benv0 () args_lamb = Some []
      \<and> py_getitem (optimizer args_lamb) ''params'' = Inr (PyDict [(''lr'', PyFloat 1)])
      \<and> filter_trainable_params benv0 (tag_model_parallel []) = Some []"
    by (simp add: benv0_def args_lamb_def args0_def tag_model_parallel_def)
  have p3: "get_params_for_weight_decay_optimization benv0 () args_sm3 = Some []
      \<and> py_getitem (optimizer args_sm3) ''params'' = Inr (PyDict [(''lr'', PyFloat 1)])
      \<and> filter_trainable_params benv0 (tag_model_parallel []) = Some []"
    by (simp add: benv0_def args_sm3_def args0_def tag_model_parallel_def)
  have p4: "get_params_for_weight_decay_optimization benv0 () args0 = Some []
      \<and> py_getitem (optimizer args0) ''params'' = Inr (PyDict [(''lr'', PyFloat 1)])
      \<and> filter_trainable_params benv0 (tag_model_parallel []) = Some []"
    by (simp add: benv0_def args0_def tag_model_parallel_def)
  have w: "''weight_decay'' \<notin> set (map fst [(''lr'', PyFloat 1)])" by simp
  have b4: "\<not> use_bnb_optimizer args0" "\<not> apex_installed benv0" "weight_decay args0 = 0"
    by (simp_all add: args0_def benv0_def)
  have r1: "get_optimizer benv0 () args_onebit = Inr (None, Some [])"
    using get_optimizer_dispatch [OF n1, of benv0 "()" "[]" "PyDict [(''lr'', PyFloat 1)]" "[]"]
      p1 l1 by blast
  have "get_optimizer benv0 () args_lamb
        = Inl (ValueError (''Optimizer type '' @ optimizer_type args_lamb @ '' not recognized''))"
    using get_optimizer_dispatch [OF n2, of benv0 "()" "[]" "PyDict [(''lr'', PyFloat 1)]" "[]"]
      p2 l2 by blast
  then have r2: "get_optimizer benv0 () args_lamb
        = Inl (ValueError ''Optimizer type lamb not recognized'')"
    by (simp add: args_lamb_def)
  have r3: "get_optimizer benv0 () args_sm3
        = Inr (Some \<lparr>opt_class = SM3, opt_param_groups = [],
                      opt_kwargs = [(''lr'', PyFloat 1)]\<rparr>, Some [])"
    using get_optimizer_dispatch [OF n3, of benv0 "()" "[]" "PyDict [(''lr'', PyFloat 1)]" "[]"]
      p3 l3 by blast
  have "get_optimizer benv0 () args0
        = (if use_bnb_optimizer args0 \<and> \<not> bitsandbytes_installed benv0
           then Inl PyException
           else Inr (Some \<lparr>opt_class =
                              (if use_bnb_optimizer args0 then Adam8bit
                               else if apex_installed benv0 then ApexFusedAdam
                               else DeepSpeedFusedAdam),
                            opt_param_groups = [],
                            opt_kwargs =
                              [(''weight_decay'', PyFloat (weight_decay args0)), (''lr'', PyFloat 1)]\<rparr>,
                     Some []))"
    using get_optimizer_dispatch [OF n4, of benv0 "()" "[]" "PyDict [(''lr'', PyFloat 1)]" "[]"]
      p4 l4 w by blast
  then have r4: "get_optimizer benv0 () args0
        = Inr (Some \<lparr>opt_class = DeepSpeedFusedAdam, opt_param_groups = [],
                      opt_kwargs = [(''weight_decay'', PyFloat 0), (''lr'', PyFloat 1)]\<rparr>,
               Some [])"
    using b4 by simp
  from n1 l1 r1 n2 l2 r2 n3 t3 r3 n4 t4 r4 show ?thesis by blast
qed

lemma get_optimizer_reaches:
  "get_optimizer env model a = Inr (Some ob, pg) \<Longrightarrow>
     \<exists>groups p. py_getitem (optimizer a) ''params'' = Inr p \<and> init_optimizer env a groups = Inr (Some ob, pg)"
  by (auto simp: get_optimizer_def split: if_splits option.splits sum.splits)

text \<open>
  Claim C10.  The inner test of the CPU branch compares \<^verbatim>\<open>neox_args.optimizer\<close> with
  the string \<^verbatim>\<open>"cpu_torch_adam"\<close>.  Whenever the earlier subscript
  \<^verbatim>\<open>neox_args.optimizer["params"]\<close> has succeeded the comparison is false, so no
  call of \<open>get_optimizer\<close> returns a \<open>TorchAdam\<close> object, and both \<open>cpu_adam\<close> and
  \<open>cpu_torch_adam\<close> construct \<open>DeepSpeedCPUAdam\<close>.
\<close>

theorem cpu_torch_adam_unreachable:
  "(\<forall>p. py_getitem (optimizer a) ''params'' = Inr p
        \<longrightarrow> \<not> py_eq_str (optimizer a) ''cpu_torch_adam'')
   \<and> (\<forall>ob pg. get_optimizer env model a = Inr (Some ob, pg) \<longrightarrow> opt_class ob \<noteq> TorchAdam)
   \<and> (\<forall>ob pg. lower (optimizer_type a) \<in> set [''cpu_adam'', ''cpu_torch_adam'']
        \<and> get_optimizer env model a = Inr (Some ob, pg) \<longrightarrow> opt_class ob = DeepSpeedCPUAdam)"
proof (intro conjI allI impI)
  fix p assume "py_getitem (optimizer a) ''params'' = Inr p"
  then show "\<not> py_eq_str (optimizer a) ''cpu_torch_adam''" by (rule getitem_not_str)
next
  fix ob pg assume r: "get_optimizer env model a = Inr (Some ob, pg)"
  from get_optimizer_reaches [OF r] obtain groups p where
    p: "py_getitem (optimizer a) ''params'' = Inr p"
    and i: "init_optimizer env a groups = Inr (Some ob, pg)" by blast
  from init_optimizer_class [OF i getitem_not_str [OF p]]
  show "opt_class ob \<noteq> TorchAdam" by auto
next
  fix ob pg
  assume h: "lower (optimizer_type a) \<in> set [''cpu_adam'', ''cpu_torch_adam'']
        \<and> get_optimizer env model a = Inr (Some ob, pg)"
  from get_optimizer_reaches [of env model a ob pg] h obtain groups p where
    p: "py_getitem (optimizer a) ''params'' = Inr p"
    and i: "init_optimizer env a groups = Inr (Some ob, pg)" by blast
  from init_optimizer_class [OF i getitem_not_str [OF p]] h
  show "opt_class ob = DeepSpeedCPUAdam" by auto
qed

theorem cpu_torch_adam_unreachable_witness:
  "lower (optimizer_type args_cpu) \<in> set [''cpu_adam'', ''cpu_torch_adam'']
   \<and> py_getitem (optimizer args_cpu) ''params'' = Inr (PyDict [(''lr'', PyFloat 1)])
   \<and> \<not> py_eq_str (optimizer args_cpu) ''cpu_torch_adam''
   \<and> (\<exists>ob pg. get_optimizer benv0 () args_cpu = Inr (Some ob, pg)
                \<and> opt_class ob = DeepSpeedCPUAdam)"
proof -
  have l: "lower (optimizer_type args_cpu) \<in> set [''cpu_adam'', ''cpu_torch_adam'']"
    by (simp add: args_cpu_def lower_names)
  have p: "py_getitem (optimizer args_cpu) ''params'' = Inr (PyDict [(''lr'', PyFloat 1)])"
    by (simp add: args_cpu_def args0_def)
  obtain ob pg where r: "get_optimizer benv0 () args_cpu = Inr (Some ob, pg)"
    by (simp add: get_optimizer_def args_cpu_def args0_def benv0_def init_optimizer_def
        lower_names construct_def with_groups_def tag_model_parallel_def)
  from cpu_torch_adam_unreachable [of args_cpu benv0 "()"] l p r
  have "\<not> py_eq_str (optimizer args_cpu) ''cpu_torch_adam''"
    and "opt_class ob = DeepSpeedCPUAdam" by blast+
  with l p r show ?thesis by blast
qed

section \<open>Reasoning about programs\<close>

lemmas prog_defs = bnd_def ret_def raise_def call_def observe_def timer_def ok_def

lemma post_ret: "good Q \<Longrightarrow> post Q (ret x)"
  by (simp add: post_def good_def ret_def err_def)

lemma post_raise: "good Q \<Longrightarrow> e \<noteq> SystemExit \<Longrightarrow> post Q (raise e)"
  by (simp add: post_def good_def raise_def err_def)

lemma post_observe: "good Q \<Longrightarrow> post Q (observe f)"
  by (auto simp: post_def good_def observe_def err_def split: option.splits)

lemma post_bnd:
  assumes "good Q" and "post Q m" and "\<And>x. post Q (f x)"
  shows "post Q (bnd m f)"
  unfolding post_def
proof
  fix s
  show "Q s (err (fst (bnd m f s))) (snd (bnd m f s))"
  proof (cases "m s")
    case (Pair r s1)
    show ?thesis
    proof (cases r)
      case (Inl e)
      with Pair assms(2) show ?thesis
        by (auto simp: post_def bnd_def err_def dest: spec [of _ s])
    next
      case (Inr x)
      from assms(2) Pair Inr have a: "Q s None s1"
        by (auto simp: post_def err_def dest: spec [of _ s])
      from assms(3) [of x] have b: "Q s1 (err (fst (f x s1))) (snd (f x s1))"
        by (simp add: post_def)
      from assms(1) a b have "Q s (err (fst (f x s1))) (snd (f x s1))"
        unfolding good_def by blast
      with Pair Inr show ?thesis by (simp add: bnd_def)
    qed
  qed
qed

lemma post_call:
  assumes "call_ok A F (Q :: 'x st \<Rightarrow> error option \<Rightarrow> 'x st \<Rightarrow> bool)" and "A ev" and "sat F c"
  shows "post Q (call ev c)"
  unfolding post_def
proof
  fix s :: "'x st"
  obtain r e' where c: "c (eng s) = (r, e')" by (cases "c (eng s)")
  from assms(3) have "F (eng s) (snd (c (eng s)))" by (simp add: sat_def)
  with c have f: "F (eng s) e'" by simp
  from assms(1) assms(2) f
  have q: "\<And>eo. eo \<in> {None, Some External}
          \<Longrightarrow> Q s eo (s\<lparr>eng := e', trace := trace s @ [(ev, grad_enabled s)]\<rparr>)"
    unfolding call_ok_def by blast
  show "Q s (err (fst (call ev c s))) (snd (call ev c s))"
    using c q [of None] q [of "Some External"]
    by (cases r) (simp_all add: call_def err_def)
qed

lemma post_if: "post Q m1 \<Longrightarrow> post Q m2 \<Longrightarrow> post Q (if c then m1 else m2)"
  by simp

lemma post_case_prod: "(\<And>x y. post Q (f x y)) \<Longrightarrow> post Q (case p of (x, y) \<Rightarrow> f x y)"
  by (cases p) simp

lemma post_case_option:
  "post Q m \<Longrightarrow> (\<And>x. post Q (f x)) \<Longrightarrow> post Q (case v of None \<Rightarrow> m | Some x \<Rightarrow> f x)"
  by (cases v) simp_all

lemma post_for_range:
  assumes "good Q" and "\<And>acc. post Q (body acc)"
  shows "post Q (for_range n body acc)"
  by (induction n arbitrary: acc) (auto intro: post_ret post_bnd assms)

lemma post_for_each:
  assumes "good Q" and "\<And>t. post Q (body t)"
  shows "post Q (for_each ts body)"
  by (induction ts) (auto intro: post_ret post_bnd assms)

lemma call_ok_mono: "call_ok A' F Q \<Longrightarrow> (\<And>ev. A ev \<Longrightarrow> A' ev) \<Longrightarrow> call_ok A F Q"
  by (simp add: call_ok_def)

lemma post_no_grad:
  assumes "\<And>s eo s' g g'. Q (s\<lparr>grad_enabled := g\<rparr>) eo s' \<Longrightarrow> Q s eo (s'\<lparr>grad_enabled := g'\<rparr>)"
    and "post (Q :: 'x st \<Rightarrow> error option \<Rightarrow> 'x st \<Rightarrow> bool) m"
  shows "post Q (no_grad m)"
  unfolding post_def
proof
  fix s :: "'x st"
  obtain r s1 where m: "m (s\<lparr>grad_enabled := False\<rparr>) = (r, s1)"
    by (cases "m (s\<lparr>grad_enabled := False\<rparr>)")
  from assms(2) have "Q (s\<lparr>grad_enabled := False\<rparr>)
      (err (fst (m (s\<lparr>grad_enabled := False\<rparr>)))) (snd (m (s\<lparr>grad_enabled := False\<rparr>)))"
    unfolding post_def by blast
  with m have "Q (s\<lparr>grad_enabled := False\<rparr>) (err r) s1" by simp
  from assms(1) [OF this] have "Q s (err r) (s1\<lparr>grad_enabled := grad_enabled s\<rparr>)" .
  with m show "Q s (err (fst (no_grad m s))) (snd (no_grad m s))"
    by (simp add: no_grad_def)
qed

lemma post_timer:
  assumes "good Q" and "call_ok A F Q" and "eval_sat F env" and "A (EvTimer name op)"
  shows "post Q (timer env a name op)"
  using assms
  by (auto simp: timer_def eval_sat_def intro!: post_call [where A = A and F = F] post_raise)

lemma u_get_batch_post:
  assumes "good Q" and "call_ok fwd_event F Q" and "eval_sat F env"
  shows "post Q (u_get_batch env a eod keys data)"
  unfolding u_get_batch_def using assms
  by (auto simp: eval_sat_def
      intro!: post_bnd post_call [where A = fwd_event and F = F] post_ret post_raise
        post_case_prod post_case_option)

lemma get_batch_post:
  assumes "good Q" and "call_ok fwd_event F Q" and "eval_sat F env"
  shows "post Q (get_batch env a it)"
  unfolding get_batch_def using assms
  by (auto simp: eval_sat_def
      intro!: post_bnd post_call [where A = fwd_event and F = F] post_ret u_get_batch_post [where F = F])

lemma forward_step_post:
  assumes "good Q" and "call_ok fwd_event F Q" and "eval_sat F env"
  shows "post Q (forward_step env a it logits)"
  unfolding forward_step_def using assms
  by (auto simp: eval_sat_def
      intro!: post_bnd post_call [where A = fwd_event and F = F] post_ret post_case_prod
        post_timer [where A = fwd_event and F = F] get_batch_post [where F = F])

lemma eval_loop_unfold:
  "eval_loop env a data_iterator verbose iter losses =
     (if iter < eval_iters a then
        bnd (if verbose \<and> log_interval a = 0 then raise ZeroDivisionError else ret ()) (\<lambda>u.
        bnd (for_range
               (if is_pipe_parallel a then 1 else nat (gradient_accumulation_steps a))
               (\<lambda>ls. bnd (forward_step env a data_iterator False)
                        (\<lambda>(loss, logits). ret (ls @ [loss])))
               losses) (\<lambda>losses'.
        bnd (if deepspeed_activation_checkpointing a
             then call EvCheckpointingReset (checkpointing_reset env) else ret ()) (\<lambda>u.
        eval_loop env a data_iterator verbose (iter + 1) losses')))
      else ret losses)"
  by (rule ext) (simp add: eval_loop.simps)

lemma eval_loop_post:
  assumes "good Q" and "call_ok fwd_event F Q" and "eval_sat F env"
  shows "post Q (eval_loop env a it verbose iter losses)"
proof (induction "nat (eval_iters a - iter)" arbitrary: iter losses)
  case 0
  then show ?case
    by (subst eval_loop_unfold) (simp add: post_ret assms)
next
  case (Suc n)
  then have ih: "\<And>losses'. post Q (eval_loop env a it verbose (iter + 1) losses')"
    by (intro Suc.hyps) linarith
  show ?case
    using assms ih
    by (subst eval_loop_unfold)
      (auto simp: eval_sat_def simp del: One_nat_def
        intro!: post_bnd post_ret post_raise post_for_range post_case_prod
          post_call [where A = fwd_event and F = F] forward_step_post [where F = F])
qed

lemma appended_refl: "appended P s s"
  by (simp add: appended_def)

lemma appended_trans: "appended P s s1 \<Longrightarrow> appended P s1 s2 \<Longrightarrow> appended P s s2"
  by (auto simp: appended_def)

lemma appended_call:
  "P (ev, grad_enabled s)
   \<Longrightarrow> appended P s (s\<lparr>eng := e', trace := trace s @ [(ev, grad_enabled s)]\<rparr>)"
  by (simp add: appended_def)

lemma env_sat_eval: "env_sat F env \<Longrightarrow> eval_sat F env"
  by (simp add: env_sat_def)

lemma train_step_pipe_post:
  assumes "good Q" and "call_ok step_event F Q" and "env_sat F env"
  shows "post Q (train_step_pipe env a it)"
  unfolding train_step_pipe_def using assms
  by (auto simp: env_sat_def
      intro!: post_bnd post_call [where A = step_event and F = F] post_ret post_for_each
        post_timer [where A = step_event and F = F])

lemma backward_step_post:
  assumes "good Q" and "call_ok step_event F Q" and "env_sat F env"
  shows "post Q (backward_step env a loss)"
  unfolding backward_step_def using assms
  by (auto simp: env_sat_def
      intro!: post_bnd post_call [where A = step_event and F = F] post_ret
        post_timer [where A = step_event and F = F])

lemma step_event_fwd: "fwd_event ev \<Longrightarrow> step_event ev"
  by (cases ev) simp_all

lemma post_call_keywords:
  "good Q \<Longrightarrow> post Q body \<Longrightarrow> post Q (call_keywords ps ks body)"
  by (auto simp: call_keywords_def bind_keywords_def intro: post_raise)

lemma micro_batch_post:
  assumes "good Q" and "call_ok step_event F Q" and "env_sat F env"
  shows "post Q (micro_batch env a it losses)"
proof -
  have f: "call_ok fwd_event F Q"
    using assms(2) by (rule call_ok_mono) (rule step_event_fwd)
  show ?thesis
    unfolding micro_batch_def using assms f
    by (auto simp: env_sat_def
        intro!: post_bnd post_call [where A = step_event and F = F] post_ret post_case_prod
          post_timer [where A = step_event and F = F] forward_step_post [where F = F]
          post_call_keywords backward_step_post [where F = F])
qed

lemma train_step_post:
  assumes "good Q" and "call_ok step_event F Q" and "env_sat F env"
  shows "post Q (train_step env a it)"
proof -
  have r: "\<And>losses. sat F (reduce_losses env losses)"
    using assms(3) by (simp add: env_sat_def eval_sat_def)
  show ?thesis
    unfolding train_step_def using assms r
    by (auto intro!: post_bnd post_call [where A = step_event and F = F] post_ret post_observe
          post_for_range micro_batch_post [where F = F] train_step_pipe_post [where F = F])
qed

lemma evaluate_post:
  assumes "good Q" and "call_ok outer_eval_event F Q" and "eval_sat F env"
    and "\<And>it. post Q (no_grad (eval_loop env a it verbose 0 []))"
  shows "post Q (evaluate env a it verbose)"
  unfolding evaluate_def model_eval_def model_train_def using assms
  by (auto simp: eval_sat_def
      intro!: post_bnd post_call [where A = outer_eval_event and F = F] post_ret)

lemma eval_sat_True: "eval_sat (\<lambda>e e'. True) env"
  by (simp add: eval_sat_def sat_def)

lemma good_traced: "good (traced P)"
  unfolding good_def traced_def
  by (auto simp: appended_refl intro: appended_trans)

lemma call_ok_traced: "call_ok P F (traced P)"
  unfolding call_ok_def traced_def by (simp add: appended_def)

lemma good_framed: "good (framed obs)"
  unfolding good_def framed_def by simp

lemma call_ok_framed: "call_ok A (\<lambda>e e'. obs (ext e') = obs (ext e)) (framed obs)"
  unfolding call_ok_def framed_def by simp

lemma evaluate_framed:
  assumes "eval_sat (\<lambda>e e'. obs (ext e') = obs (ext e)) env"
  shows "post (framed obs) (evaluate env a it verbose)"
proof (rule evaluate_post [OF good_framed call_ok_framed assms])
  show "post (framed obs) (no_grad (eval_loop env a it' verbose 0 []))" for it'
    by (rule post_no_grad)
      (simp_all add: framed_def eval_loop_post [OF good_framed call_ok_framed assms])
qed

lemma evaluate_training:
  assumes "evaluate env a it verbose s = (Inr res, s')"
  shows "training (eng s')"
  using assms
  by (auto simp: evaluate_def bnd_def model_train_def call_def set_mode_def ret_def
      split: prod.splits sum.splits if_splits option.splits)

lemma bnd_of_Inl: "m s = (Inl e, s1) \<Longrightarrow> bnd m f s = (Inl e, s1)"
  by (simp add: bnd_def)

lemma bnd_of_Inr: "m s = (Inr x, s1) \<Longrightarrow> bnd m f s = f x s1"
  by (simp add: bnd_def)

lemma model_eval_run:
  "model_eval s
     = (Inr (), s\<lparr>eng := (eng s)\<lparr>training := False\<rparr>,
                  trace := trace s @ [(EvModelEval, grad_enabled s)]\<rparr>)"
  by (simp add: model_eval_def call_def set_mode_def)

lemma no_grad_loop_trace:
  assumes "no_grad (eval_loop env a it verbose iter losses) s = (r, s')"
  shows "grad_enabled s' = grad_enabled s
       \<and> (\<exists>fwd. trace s' = trace s @ fwd \<and> list_all (\<lambda>(ev, g). fwd_event ev \<and> \<not> g) fwd)"
proof -
  obtain r1 s1 where m: "eval_loop env a it verbose iter losses (s\<lparr>grad_enabled := False\<rparr>) = (r1, s1)"
    by (cases "eval_loop env a it verbose iter losses (s\<lparr>grad_enabled := False\<rparr>)")
  have "post (traced fwd_event) (eval_loop env a it verbose iter losses)"
    by (rule eval_loop_post [OF good_traced call_ok_traced eval_sat_True])
  then have "traced fwd_event (s\<lparr>grad_enabled := False\<rparr>)
      (err (fst (eval_loop env a it verbose iter losses (s\<lparr>grad_enabled := False\<rparr>))))
      (snd (eval_loop env a it verbose iter losses (s\<lparr>grad_enabled := False\<rparr>)))"
    unfolding post_def by blast
  with m have "traced fwd_event (s\<lparr>grad_enabled := False\<rparr>) (err r1) s1" by simp
  then obtain fwd where t: "trace s1 = trace s @ fwd"
    and all: "list_all (\<lambda>(ev, g). g = False \<and> fwd_event ev) fwd"
    by (auto simp: traced_def appended_def)
  from all have all': "list_all (\<lambda>(ev, g). fwd_event ev \<and> \<not> g) fwd"
    by (induction fwd) auto
  from assms m have "s' = s1\<lparr>grad_enabled := grad_enabled s\<rparr>"
    by (simp add: no_grad_def)
  with t all' show ?thesis by auto
qed

lemma after_loop_trace:
  assumes "bnd (call EvReduceLosses (reduce_losses env losses)) (\<lambda>reduced.
     bnd (if char_level_ppl a then
            bnd (call EvTokensPerChar (tokens_per_char env (CharCounter data_iterator)))
              (\<lambda>tokens_per_char.
            ret [''lm_loss'' \<mapsto> RFloat (mean env reduced),
                 ''lm_loss_ppl'' \<mapsto> RFloat (exp (mean env reduced)),
                 ''lm_loss_char_lvl_ppl''
                   \<mapsto> RFloat (exp (mean env reduced * tokens_per_char))])
          else
            ret [''lm_loss'' \<mapsto> RFloat (mean env reduced),
                 ''lm_loss_ppl'' \<mapsto> RFloat (exp (mean env reduced))]) (\<lambda>eval_results.
     bnd (if eval_tasks a \<noteq> [] then
            bnd (call EvEvalHarness (run_eval_harness env (eval_tasks a))) (\<lambda>harness.
            ret (eval_results ++ harness))
          else ret eval_results) (\<lambda>eval_results.
     bnd model_train (\<lambda>u.
     ret eval_results)))) s = (r, s')"
  shows "grad_enabled s' = grad_enabled s
       \<and> (\<exists>rest. trace s' = trace s @ rest
            \<and> list_all (\<lambda>(ev, g). outer_eval_event ev \<and> g = grad_enabled s) rest
            \<and> (\<forall>res. r = Inr res \<longrightarrow>
                  rest = (EvReduceLosses, grad_enabled s)
                         # (if char_level_ppl a then [(EvTokensPerChar, grad_enabled s)] else [])
                         @ (if eval_tasks a \<noteq> [] then [(EvEvalHarness, grad_enabled s)] else [])
                         @ [(EvModelTrain, grad_enabled s)]))"
  using assms
  by (auto simp: bnd_def call_def ret_def model_train_def set_mode_def
      split: prod.splits sum.splits option.splits if_splits)

lemma no_update_events:
  assumes "list_all (\<lambda>(ev, g). fwd_event ev \<and> \<not> g) fwd"
    and "list_all (\<lambda>(ev, g). outer_eval_event ev \<and> g = g0) rest"
  shows "EvBackward \<notin> fst ` set (fwd @ rest) \<and> EvStep \<notin> fst ` set (fwd @ rest)
       \<and> (\<forall>it. EvTrainBatch it \<notin> fst ` set (fwd @ rest))"
proof -
  have a: "fwd_event ev" if "(ev, g) \<in> set fwd" for ev g
    using assms(1) that by (auto simp: list_all_iff)
  have b: "outer_eval_event ev" if "(ev, g) \<in> set rest" for ev g
    using assms(2) that by (auto simp: list_all_iff)
  show ?thesis by (auto dest: a b)
qed

section \<open>Properties of the training step and of evaluation\<close>

lemmas eval_defs = evaluate_def model_eval_def model_train_def set_mode_def no_grad_def
  eval_loop.simps forward_step_def get_batch_def u_get_batch_def

text \<open>
  Claim C8, as amended.  For every call of \<open>evaluate\<close>, whatever its outcome: torch's
  gradient mode afterwards is the caller's; the calls it has made are
  \<^verbatim>\<open>model.eval()\<close>, then the forward passes of the loss-collection loop, every one
  of them with gradient tracking disabled, then calls out of \<^verbatim>\<open>reduce_losses\<close>,
  \<^verbatim>\<open>tokens_per_char\<close>, \<^verbatim>\<open>run_eval_harness\<close> and \<^verbatim>\<open>model.train()\<close>, every one of them
  under the caller's gradient mode; no backward pass, no optimizer step and no
  \<^verbatim>\<open>train_batch\<close> is among them; and whatever part \<open>obs\<close> of the engine (the
  parameters, the optimizer state) the collaborators that \<open>evaluate\<close> calls leave alone
  is left alone.  When the call returns, the model is in training mode whatever the mode
  was before, and the calls after the loop are exactly \<^verbatim>\<open>reduce_losses\<close>, then
  \<^verbatim>\<open>tokens_per_char\<close> if character-level perplexity is on, then \<^verbatim>\<open>run_eval_harness\<close>
  if evaluation tasks are configured, then \<^verbatim>\<open>model.train()\<close>: the harness runs after
  the no-grad scope has been left, under the caller's gradient mode.
\<close>

theorem evaluate_effects:
  assumes run: "evaluate env a it verbose s = (r, s')"
  shows "grad_enabled s' = grad_enabled s
       \<and> (\<exists>fwd rest.
            trace s' = trace s @ (EvModelEval, grad_enabled s) # fwd @ rest
            \<and> list_all (\<lambda>(ev, g). fwd_event ev \<and> \<not> g) fwd
            \<and> list_all (\<lambda>(ev, g). outer_eval_event ev \<and> g = grad_enabled s) rest
            \<and> EvBackward \<notin> fst ` set (fwd @ rest) \<and> EvStep \<notin> fst ` set (fwd @ rest)
            \<and> (\<forall>it. EvTrainBatch it \<notin> fst ` set (fwd @ rest))
            \<and> (\<forall>res. r = Inr res \<longrightarrow>
                  rest = (EvReduceLosses, grad_enabled s)
                         # (if char_level_ppl a then [(EvTokensPerChar, grad_enabled s)] else [])
                         @ (if eval_tasks a \<noteq> [] then [(EvEvalHarness, grad_enabled s)] else [])
                         @ [(EvModelTrain, grad_enabled s)]))
       \<and> (\<forall>res. r = Inr res \<longrightarrow> training (eng s'))
       \<and> (eval_sat (\<lambda>e e'. obs (ext e') = obs (ext e)) env
            \<longrightarrow> obs (ext (eng s')) = obs (ext (eng s)))"
proof -
  let ?g = "grad_enabled s"
  let ?s1 = "s\<lparr>eng := (eng s)\<lparr>training := False\<rparr>, trace := trace s @ [(EvModelEval, ?g)]\<rparr>"
  let ?loop = "no_grad (eval_loop env a
                 (if char_level_ppl a then CharCounter it else it) verbose 0 [])"
  note x = run [unfolded evaluate_def bnd_of_Inr [OF model_eval_run]]
  obtain r2 s2 where l: "?loop ?s1 = (r2, s2)" by (cases "?loop ?s1")
  from no_grad_loop_trace [OF l] obtain fwd where
    g2: "grad_enabled s2 = ?g" and t2: "trace s2 = trace s @ (EvModelEval, ?g) # fwd"
    and f: "list_all (\<lambda>(ev, g). fwd_event ev \<and> \<not> g) fwd"
    by auto
  have shape: "grad_enabled s' = ?g
       \<and> (\<exists>rest. trace s' = trace s2 @ rest
            \<and> list_all (\<lambda>(ev, g). outer_eval_event ev \<and> g = ?g) rest
            \<and> (\<forall>res. r = Inr res \<longrightarrow>
                  rest = (EvReduceLosses, ?g)
                         # (if char_level_ppl a then [(EvTokensPerChar, ?g)] else [])
                         @ (if eval_tasks a \<noteq> [] then [(EvEvalHarness, ?g)] else [])
                         @ [(EvModelTrain, ?g)]))"
  proof (cases r2)
    case (Inl e)
    with l have "?loop ?s1 = (Inl e, s2)" by simp
    from x [unfolded bnd_of_Inl [where m = "?loop" and s = "?s1", OF this]] have "r = Inl e" and "s' = s2" by simp_all
    with g2 show ?thesis by simp
  next
    case (Inr losses)
    with l have "?loop ?s1 = (Inr losses, s2)" by simp
    note al = after_loop_trace [OF x [unfolded bnd_of_Inr [where m = "?loop" and s = "?s1", OF this]]]
    from al [unfolded g2] show ?thesis .
  qed
  then obtain rest where g': "grad_enabled s' = ?g"
    and t': "trace s' = trace s2 @ rest"
    and o: "list_all (\<lambda>(ev, g). outer_eval_event ev \<and> g = ?g) rest"
    and ex: "\<forall>res. r = Inr res \<longrightarrow>
                  rest = (EvReduceLosses, ?g)
                         # (if char_level_ppl a then [(EvTokensPerChar, ?g)] else [])
                         @ (if eval_tasks a \<noteq> [] then [(EvEvalHarness, ?g)] else [])
                         @ [(EvModelTrain, ?g)]"
    by blast
  from t' t2 have t: "trace s' = trace s @ (EvModelEval, ?g) # fwd @ rest" by simp
  note n = no_update_events [OF f o]
  have tr: "\<forall>res. r = Inr res \<longrightarrow> training (eng s')"
    using run evaluate_training by blast
  have fr: "eval_sat (\<lambda>e e'. obs (ext e') = obs (ext e)) env
            \<longrightarrow> obs (ext (eng s')) = obs (ext (eng s))"
  proof
    assume "eval_sat (\<lambda>e e'. obs (ext e') = obs (ext e)) env"
    from evaluate_framed [OF this, of a it verbose] run
    show "obs (ext (eng s')) = obs (ext (eng s))"
      by (auto simp: post_def framed_def dest!: spec [of _ s])
  qed
  from g' t f o n ex tr fr show ?thesis by blast
qed

lemma evaluate_run:
  "evaluate env0 args_eval (DataIter 2) False s0
     = (Inr [''lm_loss'' \<mapsto> RFloat 2, ''lm_loss_ppl'' \<mapsto> RFloat (exp 2),
             ''lambada'' \<mapsto> RDict [(''acc'', 1)]],
        \<lparr>eng = \<lparr>training = True, ext = 0\<rparr>, grad_enabled = True,
         trace =
           [(EvModelEval, True), (EvTimer ''forward'' TGet, False),
            (EvTimer ''batch generator'' TStart, False),
            (EvNext (DataIter 2), False), (EvBroadcastData, False),
            (EvMasks, False), (EvTimer ''batch generator'' TStop, False),
            (EvModelCall, False), (EvCrossEntropy, False),
            (EvReduceLosses, True), (EvEvalHarness, True),
            (EvModelTrain, True)]\<rparr>)"
  by (simp add: eval_defs args_eval_def args0_def env0_def s0_def prog_defs)

text \<open>
  Claim C8 as stated says that the entire evaluation runs with gradient tracking
  disabled.  The \<^verbatim>\<open>with torch.no_grad()\<close> block ends with the loop: with an evaluation
  task configured and gradient tracking enabled at the call, the harness is called with
  gradient tracking enabled.
\<close>

theorem evaluate_harness_outside_no_grad:
  "grad_enabled s0
   \<and> (\<exists>res. fst (evaluate env0 args_eval (DataIter 2) False s0) = Inr res)
   \<and> (EvEvalHarness, True) \<in> set (trace (snd (evaluate env0 args_eval (DataIter 2) False s0)))"
  by (simp add: evaluate_run) (simp add: s0_def)

theorem evaluate_effects_witness:
  "\<not> training (eng s0) \<and> grad_enabled s0
   \<and> eval_sat (\<lambda>e e'. ext e' = ext e) env0
   \<and> (\<exists>res s' fwd. evaluate env0 args_eval (DataIter 2) False s0 = (Inr res, s')
         \<and> training (eng s') \<and> grad_enabled s'
         \<and> ext (eng s') = ext (eng s0)
         \<and> trace s' = (EvModelEval, True) # fwd
                @ [(EvReduceLosses, True), (EvEvalHarness, True), (EvModelTrain, True)]
         \<and> length fwd = 8
         \<and> list_all (\<lambda>(ev, g). fwd_event ev \<and> \<not> g) fwd
         \<and> EvStep \<notin> fst ` set fwd)"
proof -
  have m: "\<not> training (eng s0)" and t0: "trace s0 = []" and g0: "grad_enabled s0"
    by (simp_all add: s0_def)
  have c: "eval_sat (\<lambda>e e'. ext e' = ext e) env0"
    by (simp add: eval_sat_def sat_def env0_def ok_def set_mode_def)
  have a: "\<not> char_level_ppl args_eval" "eval_tasks args_eval \<noteq> []"
    by (simp_all add: args_eval_def args0_def)
  obtain res s' where run: "evaluate env0 args_eval (DataIter 2) False s0 = (Inr res, s')"
    and len: "length (trace s') = 12"
    by (simp add: evaluate_run)
  from evaluate_effects [OF run, of "\<lambda>x. x"] c t0 g0 a
  obtain fwd where "training (eng s')" and "grad_enabled s'" and "ext (eng s') = ext (eng s0)"
    and t: "trace s' = (EvModelEval, True) # fwd
                @ [(EvReduceLosses, True), (EvEvalHarness, True), (EvModelTrain, True)]"
    and "list_all (\<lambda>(ev, g). fwd_event ev \<and> \<not> g) fwd"
    and "EvStep \<notin> fst ` set fwd"
    by auto
  moreover from t len have "length fwd = 8" by simp
  ultimately show ?thesis using m g0 c run by blast
qed

lemma bnd_raise: "bnd (raise e) f = raise e"
  by (rule ext) (simp add: bnd_def raise_def)

lemma micro_batch_truncated:
  "micro_batch env a it losses =
     bnd (timer env a ''forward'' TStart) (\<lambda>u.
     bnd (forward_step env a it False) (\<lambda>(loss, logits).
     bnd (timer env a ''forward'' TStop) (\<lambda>u.
     bnd (timer env a ''backward'' TStart) (\<lambda>u.
     raise TypeError))))"
  by (simp add: micro_batch_def call_keywords_def bind_keywords_def backward_step_params_def
      bnd_raise)

lemma fails_raise: "fails (raise e)"
  by (simp add: fails_def raise_def)

lemma fails_bnd_left:
  assumes "fails m"
  shows "fails (bnd m f)"
  unfolding fails_def
proof
  fix s
  obtain r s1 where m: "m s = (r, s1)" by (cases "m s")
  from assms m obtain e where "r = Inl e"
    by (cases r) (auto simp: fails_def dest!: spec [of _ s])
  with m show "isl (fst (bnd m f s))" by (simp add: bnd_of_Inl)
qed

lemma fails_bnd_right:
  assumes "\<And>x. fails (f x)"
  shows "fails (bnd m f)"
  unfolding fails_def
proof
  fix s
  obtain r s1 where m: "m s = (r, s1)" by (cases "m s")
  show "isl (fst (bnd m f s))"
  proof (cases r)
    case (Inl e)
    with m show ?thesis by (simp add: bnd_of_Inl)
  next
    case (Inr x)
    with m have "bnd m f s = f x s1" by (simp add: bnd_of_Inr)
    with assms [of x] show ?thesis by (simp add: fails_def)
  qed
qed

lemma fails_case_prod: "(\<And>x y. fails (f x y)) \<Longrightarrow> fails (case p of (x, y) \<Rightarrow> f x y)"
  by (cases p) simp

lemma post_bnd_fails:
  assumes "fails m" and "post Q m"
  shows "post Q (bnd m f)"
  unfolding post_def
proof
  fix s
  obtain r s1 where m: "m s = (r, s1)" by (cases "m s")
  from assms(1) m obtain e where e: "r = Inl e"
    by (cases r) (auto simp: fails_def dest!: spec [of _ s])
  from assms(2) have "Q s (err (fst (m s))) (snd (m s))" by (simp add: post_def)
  with m e show "Q s (err (fst (bnd m f s))) (snd (bnd m f s))"
    by (simp add: bnd_of_Inl err_def)
qed

lemma micro_batch_fails: "fails (micro_batch env a it losses)"
  unfolding micro_batch_truncated
  by (intro fails_bnd_right fails_case_prod fails_raise)

lemma micro_batch_forward_only:
  assumes "good Q" and "call_ok fwd_event F Q" and "eval_sat F env"
  shows "post Q (micro_batch env a it losses)"
  unfolding micro_batch_truncated using assms
  by (auto intro!: post_bnd post_raise post_case_prod
        post_timer [where A = fwd_event and F = F] forward_step_post [where F = F])

lemma train_step_manual_eq:
  assumes "\<not> is_pipe_parallel a" and "nat (gradient_accumulation_steps a) = Suc k"
  shows "train_step env a it =
     bnd (bnd (bnd (micro_batch env a it []) (for_range k (micro_batch env a it))) (\<lambda>losses.
            bnd (call EvReduceLosses (reduce_losses env losses)) (\<lambda>reduced.
            ret [''lm_loss'' \<mapsto> mean env reduced]))) (\<lambda>loss_dict.
     bnd (if precision a = ''fp16'' then observe (optimizer_overflow env) else ret False)
       (\<lambda>overflow.
     if overflow then ret (loss_dict, 1) else ret (loss_dict, 0)))"
  using assms by (simp add: train_step_def)

text \<open>
  Claim C2.  In manual mode with at least one accumulation step, \<open>train_step\<close> never
  returns: the first micro-batch runs its forward pass and then the call of
  \<^verbatim>\<open>backward_step\<close> raises, because it passes the keyword \<^verbatim>\<open>optimizer\<close>, which is not
  a parameter, and no \<^verbatim>\<open>timers\<close>.  Nothing but forward-pass calls and timers has
  happened by then: no backward pass, no \<^verbatim>\<open>model.step()\<close>, no loss reduction.
\<close>

theorem train_step_manual_stops_before_backward:
  assumes "\<not> is_pipe_parallel a" and "1 \<le> gradient_accumulation_steps a"
    and "train_step env a it s = (r, s')"
  shows "(\<exists>e. r = Inl e)
       \<and> (\<exists>evs. trace s' = trace s @ evs \<and> list_all (\<lambda>(ev, g). fwd_event ev) evs
             \<and> EvBackward \<notin> fst ` set evs \<and> EvStep \<notin> fst ` set evs)"
proof -
  from assms(2) obtain k where k: "nat (gradient_accumulation_steps a) = Suc k"
    by (cases "nat (gradient_accumulation_steps a)") auto
  note eq = train_step_manual_eq [OF assms(1) k]
  have f: "fails (train_step env a it)"
    unfolding eq by (intro fails_bnd_left micro_batch_fails)
  have "post (traced fwd_event) (micro_batch env a it [])"
    by (rule micro_batch_forward_only [OF good_traced call_ok_traced eval_sat_True])
  then have p: "post (traced fwd_event) (train_step env a it)"
    unfolding eq by (intro post_bnd_fails fails_bnd_left micro_batch_fails)
  from f assms(3) have a: "\<exists>e. r = Inl e"
    by (cases r) (auto simp: fails_def dest!: spec [of _ s])
  from p assms(3) obtain evs where evs: "trace s' = trace s @ evs"
    and all: "list_all (\<lambda>(ev, g). g = grad_enabled s \<and> fwd_event ev) evs"
    by (auto simp: post_def traced_def appended_def dest!: spec [of _ s])
  from all have b: "list_all (\<lambda>(ev, g). fwd_event ev) evs
      \<and> EvBackward \<notin> fst ` set evs \<and> EvStep \<notin> fst ` set evs"
    by (induction evs) auto
  from a evs b show ?thesis by blast
qed

lemma train_step_manual_run:
  "train_step env0 args_manual (DataIter 0) s0
     = (Inl TypeError,
        \<lparr>eng = \<lparr>training = False, ext = 0\<rparr>, grad_enabled = True,
         trace =
           [(EvTimer ''forward'' TStart, True),
            (EvTimer ''forward'' TGet, True),
            (EvTimer ''batch generator'' TStart, True),
            (EvNext (DataIter 0), True), (EvBroadcastData, True),
            (EvMasks, True), (EvTimer ''batch generator'' TStop, True),
            (EvModelCall, True), (EvCrossEntropy, True),
            (EvTimer ''forward'' TStop, True),
            (EvTimer ''backward'' TStart, True)]\<rparr>)"
  by (simp add: train_step_def micro_batch_def forward_step_def get_batch_def u_get_batch_def
      call_keywords_def bind_keywords_def backward_step_params_def
      args_manual_def args0_def env0_def s0_def prog_defs)

theorem train_step_manual_stops_before_backward_witness:
  "\<not> is_pipe_parallel args_manual
   \<and> 1 \<le> gradient_accumulation_steps args_manual
   \<and> fst (train_step env0 args_manual (DataIter 0) s0) = Inl TypeError
   \<and> ext (eng (snd (train_step env0 args_manual (DataIter 0) s0))) = ext (eng s0)
   \<and> EvBackward \<notin> fst ` set (trace (snd (train_step env0 args_manual (DataIter 0) s0)))
   \<and> EvStep \<notin> fst ` set (trace (snd (train_step env0 args_manual (DataIter 0) s0)))"
proof -
  have h1: "\<not> is_pipe_parallel args_manual"
    and h2: "1 \<le> gradient_accumulation_steps args_manual"
    by (simp_all add: args_manual_def args0_def)
  have t0: "trace s0 = []" by (simp add: s0_def)
  from train_step_manual_stops_before_backward [OF h1 h2 train_step_manual_run] t0
  have "EvBackward \<notin> fst ` set (trace (snd (train_step env0 args_manual (DataIter 0) s0)))
      \<and> EvStep \<notin> fst ` set (trace (snd (train_step env0 args_manual (DataIter 0) s0)))"
    by (auto simp: train_step_manual_run)
  moreover have "fst (train_step env0 args_manual (DataIter 0) s0) = Inl TypeError
      \<and> ext (eng (snd (train_step env0 args_manual (DataIter 0) s0))) = ext (eng s0)"
    by (simp add: train_step_manual_run) (simp add: s0_def)
  ultimately show ?thesis using h1 h2 by blast
qed

lemma returns_ret: "returns (ret x)"
  by (simp add: returns_def ret_def)

lemma returns_bnd:
  assumes "returns m" and "\<And>x. returns (f x)"
  shows "returns (bnd m f)"
  unfolding returns_def
proof
  fix s
  obtain r s1 where m: "m s = (r, s1)" by (cases "m s")
  from assms(1) m obtain x where "r = Inr x"
    by (cases r) (auto simp: returns_def dest!: spec [of _ s])
  with m have "bnd m f s = f x s1" by (simp add: bnd_of_Inr)
  with assms(2) [of x] show "\<not> isl (fst (bnd m f s))" by (simp add: returns_def)
qed

lemma returns_call:
  fixes c :: "('x, 'a) collab"
  assumes "\<And>e. fst (c e) \<noteq> None"
  shows "returns (call ev c)"
  unfolding returns_def
proof
  fix s :: "'x st"
  obtain r e' where c: "c (eng s) = (r, e')" by (cases "c (eng s)")
  with assms [of "eng s"] obtain x where "r = Some x" by (cases r) auto
  with c show "\<not> isl (fst (call ev c s))" by (simp add: call_def)
qed

lemma returns_observe:
  fixes f :: "'x engine \<Rightarrow> 'a option"
  assumes "\<And>e. f e \<noteq> None"
  shows "returns (observe f)"
  unfolding returns_def
proof
  fix s :: "'x st"
  from assms [of "eng s"] obtain x where "f (eng s) = Some x" by (cases "f (eng s)") auto
  then show "\<not> isl (fst (observe f s))" by (simp add: observe_def)
qed

lemma returns_for_each:
  assumes "\<And>t. returns (body t)"
  shows "returns (for_each ts body)"
  by (induction ts) (auto intro: returns_ret returns_bnd assms)

lemma train_step_pipe_returns:
  assumes "is_pipe_parallel a" and "timers_set a"
    and "\<And>e. fst (train_batch env it e) \<noteq> None"
    and "\<And>name op e. fst (timers env name op e) \<noteq> None"
    and "\<And>e. optimizer_overflow env e \<noteq> None"
  shows "returns (train_step env a it)"
  unfolding train_step_def train_step_pipe_def timer_def using assms
  by (auto intro!: returns_bnd returns_call returns_ret returns_observe returns_for_each)

lemma train_step_manual_fails:
  assumes "\<not> is_pipe_parallel a" and "1 \<le> gradient_accumulation_steps a"
  shows "fails (train_step env a it)"
proof -
  from assms(2) obtain k where k: "nat (gradient_accumulation_steps a) = Suc k"
    by (cases "nat (gradient_accumulation_steps a)") auto
  show ?thesis
    unfolding train_step_manual_eq [OF assms(1) k]
    by (intro fails_bnd_left micro_batch_fails)
qed

lemma train_step_flag:
  assumes "train_step env a data_iterator s = (Inr (loss_dict, skipped), s')"
  shows "skipped
           = (if precision a = ''fp16'' \<and> optimizer_overflow env (eng s') = Some True then 1 else 0)"
  using assms
  by (auto simp: train_step_def bnd_def ret_def observe_def
      split: prod.splits sum.splits if_splits option.splits)

text \<open>
  Claim C1.  Whenever \<open>train_step\<close> returns, its result is a pair of the loss dict and a
  flag, and the flag is 1 exactly when the precision is \<open>fp16\<close> and the optimizer of the
  model reports an overflow in the state the step has left; otherwise it is 0.  In
  pipeline mode the call returns such a pair whenever \<^verbatim>\<open>train_batch\<close>, the timers and
  the overflow attribute do not raise.  In manual mode with at least one accumulation
  step the call never returns, whatever the collaborators do, because the call of
  \<^verbatim>\<open>backward_step\<close> raises: there no pair is returned.
\<close>

theorem train_step_skipped_flag:
  assumes "train_step env a data_iterator s = (r, s')"
  shows "(\<forall>loss_dict skipped. r = Inr (loss_dict, skipped) \<longrightarrow>
            skipped = (if precision a = ''fp16''
                          \<and> optimizer_overflow env (eng s') = Some True then 1 else 0))
       \<and> (is_pipe_parallel a \<and> timers_set a
            \<and> (\<forall>e. fst (train_batch env data_iterator e) \<noteq> None)
            \<and> (\<forall>name op e. fst (timers env name op e) \<noteq> None)
            \<and> (\<forall>e. optimizer_overflow env e \<noteq> None)
          \<longrightarrow> (\<exists>loss_dict skipped. r = Inr (loss_dict, skipped)))
       \<and> (\<not> is_pipe_parallel a \<and> 1 \<le> gradient_accumulation_steps a
          \<longrightarrow> (\<exists>e. r = Inl e))"
proof (intro conjI allI impI)
  fix loss_dict skipped
  assume "r = Inr (loss_dict, skipped)"
  with assms have "train_step env a data_iterator s = (Inr (loss_dict, skipped), s')" by simp
  then show "skipped = (if precision a = ''fp16''
                          \<and> optimizer_overflow env (eng s') = Some True then 1 else 0)"
    by (rule train_step_flag)
next
  assume h: "is_pipe_parallel a \<and> timers_set a
            \<and> (\<forall>e. fst (train_batch env data_iterator e) \<noteq> None)
            \<and> (\<forall>name op e. fst (timers env name op e) \<noteq> None)
            \<and> (\<forall>e. optimizer_overflow env e \<noteq> None)"
  then have "returns (train_step env a data_iterator)"
    by (intro train_step_pipe_returns) auto
  with assms show "\<exists>loss_dict skipped. r = Inr (loss_dict, skipped)"
    by (cases r) (auto simp: returns_def dest!: spec [of _ s])
next
  assume "\<not> is_pipe_parallel a \<and> 1 \<le> gradient_accumulation_steps a"
  then have "fails (train_step env a data_iterator)"
    by (intro train_step_manual_fails) auto
  with assms show "\<exists>e. r = Inl e"
    by (cases r) (auto simp: fails_def dest!: spec [of _ s])
qed

lemma train_step_fp16_run:
  "train_step env0 args0 (DataIter 0) s0
     = (Inr ([''lm_loss'' \<mapsto> 2], 1),
        \<lparr>eng = \<lparr>training = False, ext = Suc 0\<rparr>, grad_enabled = True,
         trace =
           [(EvTrainBatch (DataIter 0), True),
            (EvTimer ''forward'' TReset, True),
            (EvTimer ''backward'' TReset, True),
            (EvTimer ''allreduce'' TReset, True),
            (EvTimer ''optimizer'' TReset, True),
            (EvTimer ''batch generator'' TReset, True),
            (EvTimer ''data loader'' TReset, True)]\<rparr>)"
  by (simp add: train_step_def train_step_pipe_def args0_def env0_def s0_def prog_defs)

theorem train_step_skipped_flag_witness:
  "(\<exists>loss_dict s'. train_step env0 args0 (DataIter 0) s0 = (Inr (loss_dict, 1), s')
       \<and> is_pipe_parallel args0
       \<and> precision args0 = ''fp16'' \<and> optimizer_overflow env0 (eng s') = Some True)
   \<and> (\<exists>loss_dict s'. train_step env0 args_bf16 (DataIter 0) s0 = (Inr (loss_dict, 0), s')
       \<and> is_pipe_parallel args_bf16 \<and> precision args_bf16 \<noteq> ''fp16'')
   \<and> \<not> is_pipe_parallel args_manual \<and> 1 \<le> gradient_accumulation_steps args_manual
   \<and> fst (train_step env0 args_manual (DataIter 0) s0) = Inl TypeError"
proof -
  from train_step_skipped_flag [OF train_step_fp16_run]
  have "precision args0 = ''fp16''
      \<and> optimizer_overflow env0 \<lparr>training = False, ext = Suc 0\<rparr> = Some True"
    by (simp split: if_splits)
  moreover have p0: "is_pipe_parallel args0" by (simp add: args0_def)
  ultimately have a: "\<exists>loss_dict s'.
      train_step env0 args0 (DataIter 0) s0 = (Inr (loss_dict, 1), s')
       \<and> is_pipe_parallel args0
       \<and> precision args0 = ''fp16'' \<and> optimizer_overflow env0 (eng s') = Some True"
    using train_step_fp16_run by simp
  obtain r s' where run: "train_step env0 args_bf16 (DataIter 0) s0 = (r, s')"
    by (cases "train_step env0 args_bf16 (DataIter 0) s0")
  have h: "is_pipe_parallel args_bf16 \<and> timers_set args_bf16
            \<and> (\<forall>e. fst (train_batch env0 (DataIter 0) e) \<noteq> None)
            \<and> (\<forall>name op e. fst (timers env0 name op e) \<noteq> None)
            \<and> (\<forall>e. optimizer_overflow env0 e \<noteq> None)"
    by (simp add: args_bf16_def args0_def env0_def ok_def)
  have nf: "precision args_bf16 \<noteq> ''fp16''" by (simp add: args_bf16_def)
  from train_step_skipped_flag [OF run] h nf
  obtain loss_dict where "r = Inr (loss_dict, 0)" by auto
  with run h nf have b: "\<exists>loss_dict s'.
      train_step env0 args_bf16 (DataIter 0) s0 = (Inr (loss_dict, 0), s')
       \<and> is_pipe_parallel args_bf16 \<and> precision args_bf16 \<noteq> ''fp16''" by blast
  have m: "\<not> is_pipe_parallel args_manual" "1 \<le> gradient_accumulation_steps args_manual"
    by (simp_all add: args_manual_def args0_def)
  have c: "fst (train_step env0 args_manual (DataIter 0) s0) = Inl TypeError"
    by (simp add: train_step_manual_run)
  from a b m c show ?thesis by blast
qed

text \<open>
  Claim C5.  When the broadcast hands back a dict whose \<^verbatim>\<open>"text"\<close> field is a matrix
  \<open>raw\<close> of shape \<open>(batch, seq_len + 1)\<close> and the mask builder returns,
  \<^verbatim>\<open>_get_batch\<close> returns \<open>tokens = raw[:, :-1]\<close> and \<open>labels = raw[:, 1:]\<close>, both of
  shape \<open>(batch, seq_len)\<close>, with \<open>labels[i][j] = raw[i][j+1]\<close> and
  \<open>tokens[i][j] = raw[i][j]\<close> for every row \<open>i\<close> and every column \<open>j < seq_len\<close>
  (the range \<open>j < seq_len - 1\<close> of the claim included).
\<close>

theorem u_get_batch_shifts:
  assumes "broadcast_data env keys data (eng s) = (Some data_b, e1)"
    and "data_b ''text'' = Some raw"
    and "shape raw batch (seq_len + 1)"
    and "get_ltor_masks_and_position_ids env (map butlast raw) eod (eod_mask_loss a) e1
           = (Some (attention_mask, loss_mask, position_ids), e2)"
  shows "\<exists>tokens labels s'.
           u_get_batch env a eod keys data s
             = (Inr (tokens, labels, loss_mask, attention_mask, position_ids), s')
         \<and> tokens = map butlast raw \<and> labels = map (drop 1) raw
         \<and> shape tokens batch seq_len \<and> shape labels batch seq_len
         \<and> (\<forall>i < batch. \<forall>j < seq_len.
               labels ! i ! j = raw ! i ! (j + 1) \<and> tokens ! i ! j = raw ! i ! j)"
proof -
  have run: "\<exists>s'. u_get_batch env a eod keys data s
      = (Inr (map butlast raw, map (drop 1) raw, loss_mask, attention_mask, position_ids), s')"
    using assms(1,2,4) by (simp add: u_get_batch_def bnd_def call_def ret_def)
  from assms(3) have len: "length raw = batch"
    and rows: "\<And>i. i < batch \<Longrightarrow> length (raw ! i) = seq_len + 1"
    by (auto simp: shape_def list_all_length)
  have sh: "shape (map butlast raw) batch seq_len \<and> shape (map (drop 1) raw) batch seq_len"
    using assms(3) by (auto simp: shape_def list_all_length)
  have el: "\<forall>i < batch. \<forall>j < seq_len.
      map (drop 1) raw ! i ! j = raw ! i ! (j + 1) \<and> map butlast raw ! i ! j = raw ! i ! j"
    using len rows by (auto simp: nth_butlast)
  from run sh el show ?thesis by blast
qed

lemma u_get_batch_run:
  "u_get_batch env0 args0 0 [''text''] (Some [''text'' \<mapsto> raw0]) s0
     = (Inr ([[1, 2], [4, 5]], [[2, 3], [5, 6]], (), (), ()),
        \<lparr>eng = \<lparr>training = False, ext = 0\<rparr>, grad_enabled = True,
         trace = [(EvBroadcastData, True), (EvMasks, True)]\<rparr>)"
  by (simp add: u_get_batch_def raw0_def args0_def env0_def s0_def prog_defs)

lemma bnd_Inr_E:
  assumes "bnd m f s = (Inr y, s')"
  obtains x s1 where "m s = (Inr x, s1)" and "f x s1 = (Inr y, s')"
  using assms by (auto simp: bnd_def split: prod.splits sum.splits)

lemma call_Inr_E:
  assumes "call ev c s = (Inr x, s')"
  obtains e' where "c (eng s) = (Some x, e')"
    and "s' = s\<lparr>eng := e', trace := trace s @ [(ev, grad_enabled s)]\<rparr>"
  using assms by (auto simp: call_def split: prod.splits option.splits)

lemma ret_Inr_E:
  assumes "ret x s = (Inr y, s')"
  obtains "y = x" and "s' = s"
  using assms by (simp add: ret_def)

lemma merge_harness:
  assumes r: "(if eval_tasks a \<noteq> [] then
            bnd (call EvEvalHarness (run_eval_harness env (eval_tasks a))) (\<lambda>harness.
            ret (base ++ harness))
          else ret base) s2 = (Inr res, s3)"
    and h: "eval_tasks a = []
         \<or> (\<forall>e h e'. run_eval_harness env (eval_tasks a) e = (Some h, e')
               \<longrightarrow> h ''lm_loss'' = None \<and> h ''lm_loss_ppl'' = None
                   \<and> h ''lm_loss_char_lvl_ppl'' = None)"
  shows "res ''lm_loss'' = base ''lm_loss'' \<and> res ''lm_loss_ppl'' = base ''lm_loss_ppl''
       \<and> res ''lm_loss_char_lvl_ppl'' = base ''lm_loss_char_lvl_ppl''"
proof (cases "eval_tasks a = []")
  case True
  with r have "res = base" by (simp add: ret_def)
  then show ?thesis by simp
next
  case False
  with r have b: "bnd (call EvEvalHarness (run_eval_harness env (eval_tasks a)))
      (\<lambda>harness. ret (base ++ harness)) s2 = (Inr res, s3)" by simp
  from b obtain harness s2' where
    c: "call EvEvalHarness (run_eval_harness env (eval_tasks a)) s2 = (Inr harness, s2')"
    and q: "ret (base ++ harness) s2' = (Inr res, s3)"
    by (rule bnd_Inr_E)
  from c obtain e' where "run_eval_harness env (eval_tasks a) (eng s2) = (Some harness, e')"
    by (rule call_Inr_E)
  with h False have n: "harness ''lm_loss'' = None \<and> harness ''lm_loss_ppl'' = None
      \<and> harness ''lm_loss_char_lvl_ppl'' = None" by blast
  from q have "res = base ++ harness" by (simp add: ret_def)
  with n show ?thesis by (simp add: map_add_def)
qed

text \<open>
  Claim C9.  With \<open>char_level_ppl\<close> set, a call of \<open>evaluate\<close> that returns has run its
  loop over the counting adapter around the data iterator, has read \<open>tokens_per_char\<close>
  from that adapter, and reports \<open>lm_loss\<close> as the mean of the reduced losses,
  \<open>lm_loss_ppl = exp lm_loss\<close> and \<open>lm_loss_char_lvl_ppl = exp (lm_loss * tokens_per_char)\<close>;
  with \<open>tokens_per_char = 1\<close> the last two are equal.  The harness, when configured, must
  not report under one of these three keys, since its results are merged over them.
\<close>

theorem evaluate_char_level_ppl:
  assumes "char_level_ppl a"
    and "evaluate env a it verbose s = (Inr res, s')"
    and "eval_tasks a = []
         \<or> (\<forall>e h e'. run_eval_harness env (eval_tasks a) e = (Some h, e')
               \<longrightarrow> h ''lm_loss'' = None \<and> h ''lm_loss_ppl'' = None
                   \<and> h ''lm_loss_char_lvl_ppl'' = None)"
  shows "\<exists>s1 s2 losses reduced e3 tpc e4.
           model_eval s = (Inr (), s1)
         \<and> no_grad (eval_loop env a (CharCounter it) verbose 0 []) s1 = (Inr losses, s2)
         \<and> reduce_losses env losses (eng s2) = (Some reduced, e3)
         \<and> tokens_per_char env (CharCounter it) e3 = (Some tpc, e4)
         \<and> res ''lm_loss'' = Some (RFloat (mean env reduced))
         \<and> res ''lm_loss_ppl'' = Some (RFloat (exp (mean env reduced)))
         \<and> res ''lm_loss_char_lvl_ppl'' = Some (RFloat (exp (mean env reduced * tpc)))
         \<and> (tpc = 1 \<longrightarrow> res ''lm_loss_char_lvl_ppl'' = res ''lm_loss_ppl'')"
proof -
  note ev = assms(2) [unfolded evaluate_def]
  from ev obtain u s1 where 1: "model_eval s = (Inr u, s1)"
    and r1: "bnd (no_grad
            (eval_loop env a
               (if char_level_ppl a then CharCounter it else it)
               verbose 0 [])) (\<lambda>losses.
     bnd (call EvReduceLosses (reduce_losses env losses)) (\<lambda>reduced.
     bnd (if char_level_ppl a then
            bnd (call EvTokensPerChar (tokens_per_char env (CharCounter it)))
              (\<lambda>tokens_per_char.
            ret [''lm_loss'' \<mapsto> RFloat (mean env reduced),
                 ''lm_loss_ppl'' \<mapsto> RFloat (exp (mean env reduced)),
                 ''lm_loss_char_lvl_ppl''
                   \<mapsto> RFloat (exp (mean env reduced * tokens_per_char))])
          else
            ret [''lm_loss'' \<mapsto> RFloat (mean env reduced),
                 ''lm_loss_ppl'' \<mapsto> RFloat (exp (mean env reduced))]) (\<lambda>eval_results.
     bnd (if eval_tasks a \<noteq> [] then
            bnd (call EvEvalHarness (run_eval_harness env (eval_tasks a))) (\<lambda>harness.
            ret (eval_results ++ harness))
          else ret eval_results) (\<lambda>eval_results.
     bnd model_train (\<lambda>u.
     ret eval_results))))) s1 = (Inr res, s')"
    by (rule bnd_Inr_E)
  from r1 obtain losses s2 where
    2: "no_grad (eval_loop env a (if char_level_ppl a then CharCounter it else it)
          verbose 0 []) s1 = (Inr losses, s2)"
    and r2: "bnd (call EvReduceLosses (reduce_losses env losses)) (\<lambda>reduced.
     bnd (if char_level_ppl a then
            bnd (call EvTokensPerChar (tokens_per_char env (CharCounter it)))
              (\<lambda>tokens_per_char.
            ret [''lm_loss'' \<mapsto> RFloat (mean env reduced),
                 ''lm_loss_ppl'' \<mapsto> RFloat (exp (mean env reduced)),
                 ''lm_loss_char_lvl_ppl''
                   \<mapsto> RFloat (exp (mean env reduced * tokens_per_char))])
          else
            ret [''lm_loss'' \<mapsto> RFloat (mean env reduced),
                 ''lm_loss_ppl'' \<mapsto> RFloat (exp (mean env reduced))]) (\<lambda>eval_results.
     bnd (if eval_tasks a \<noteq> [] then
            bnd (call EvEvalHarness (run_eval_harness env (eval_tasks a))) (\<lambda>harness.
            ret (eval_results ++ harness))
          else ret eval_results) (\<lambda>eval_results.
     bnd model_train (\<lambda>u.
     ret eval_results)))) s2 = (Inr res, s')"
    by (rule bnd_Inr_E)
  from r2 obtain reduced s3 where
    c3: "call EvReduceLosses (reduce_losses env losses) s2 = (Inr reduced, s3)"
    and r3: "bnd (if char_level_ppl a then
            bnd (call EvTokensPerChar (tokens_per_char env (CharCounter it)))
              (\<lambda>tokens_per_char.
            ret [''lm_loss'' \<mapsto> RFloat (mean env reduced),
                 ''lm_loss_ppl'' \<mapsto> RFloat (exp (mean env reduced)),
                 ''lm_loss_char_lvl_ppl''
                   \<mapsto> RFloat (exp (mean env reduced * tokens_per_char))])
          else
            ret [''lm_loss'' \<mapsto> RFloat (mean env reduced),
                 ''lm_loss_ppl'' \<mapsto> RFloat (exp (mean env reduced))]) (\<lambda>eval_results.
     bnd (if eval_tasks a \<noteq> [] then
            bnd (call EvEvalHarness (run_eval_harness env (eval_tasks a))) (\<lambda>harness.
            ret (eval_results ++ harness))
          else ret eval_results) (\<lambda>eval_results.
     bnd model_train (\<lambda>u.
     ret eval_results))) s3 = (Inr res, s')"
    by (rule bnd_Inr_E)
  from c3 obtain e3 where 3: "reduce_losses env losses (eng s2) = (Some reduced, e3)"
    and s3: "s3 = s2\<lparr>eng := e3, trace := trace s2 @ [(EvReduceLosses, grad_enabled s2)]\<rparr>"
    by (rule call_Inr_E)
  from r3 obtain base s4 where
    c4: "(if char_level_ppl a then
            bnd (call EvTokensPerChar (tokens_per_char env (CharCounter it)))
              (\<lambda>tokens_per_char.
            ret [''lm_loss'' \<mapsto> RFloat (mean env reduced),
                 ''lm_loss_ppl'' \<mapsto> RFloat (exp (mean env reduced)),
                 ''lm_loss_char_lvl_ppl''
                   \<mapsto> RFloat (exp (mean env reduced * tokens_per_char))])
          else
            ret [''lm_loss'' \<mapsto> RFloat (mean env reduced),
                 ''lm_loss_ppl'' \<mapsto> RFloat (exp (mean env reduced))]) s3 = (Inr base, s4)"
    and r4: "bnd (if eval_tasks a \<noteq> [] then
            bnd (call EvEvalHarness (run_eval_harness env (eval_tasks a))) (\<lambda>harness.
            ret (base ++ harness))
          else ret base) (\<lambda>eval_results.
     bnd model_train (\<lambda>u.
     ret eval_results)) s4 = (Inr res, s')"
    by (rule bnd_Inr_E)
  from c4 assms(1) have "bnd (call EvTokensPerChar (tokens_per_char env (CharCounter it)))
              (\<lambda>tokens_per_char.
            ret [''lm_loss'' \<mapsto> RFloat (mean env reduced),
                 ''lm_loss_ppl'' \<mapsto> RFloat (exp (mean env reduced)),
                 ''lm_loss_char_lvl_ppl''
                   \<mapsto> RFloat (exp (mean env reduced * tokens_per_char))]) s3
        = (Inr base, s4)" by simp
  then obtain tpc s3' where
    c5: "call EvTokensPerChar (tokens_per_char env (CharCounter it)) s3 = (Inr tpc, s3')"
    and b: "ret [''lm_loss'' \<mapsto> RFloat (mean env reduced),
                 ''lm_loss_ppl'' \<mapsto> RFloat (exp (mean env reduced)),
                 ''lm_loss_char_lvl_ppl'' \<mapsto> RFloat (exp (mean env reduced * tpc))] s3'
        = (Inr base, s4)"
    by (rule bnd_Inr_E)
  from c5 obtain e4 where "tokens_per_char env (CharCounter it) (eng s3) = (Some tpc, e4)"
    by (rule call_Inr_E)
  with s3 have 4: "tokens_per_char env (CharCounter it) e3 = (Some tpc, e4)" by simp
  from b have base: "base = [''lm_loss'' \<mapsto> RFloat (mean env reduced),
                 ''lm_loss_ppl'' \<mapsto> RFloat (exp (mean env reduced)),
                 ''lm_loss_char_lvl_ppl'' \<mapsto> RFloat (exp (mean env reduced * tpc))]"
    by (simp add: ret_def)
  from r4 obtain res' s5 where
    c6: "(if eval_tasks a \<noteq> [] then
            bnd (call EvEvalHarness (run_eval_harness env (eval_tasks a))) (\<lambda>harness.
            ret (base ++ harness))
          else ret base) s4 = (Inr res', s5)"
    and r5: "bnd model_train (\<lambda>u. ret res') s5 = (Inr res, s')"
    by (rule bnd_Inr_E)
  from r5 obtain u' s6 where "ret res' s6 = (Inr res, s')" by (rule bnd_Inr_E)
  then have res: "res = res'" by (simp add: ret_def)
  from merge_harness [OF c6 assms(3)] res base
  have v: "res ''lm_loss'' = Some (RFloat (mean env reduced))
         \<and> res ''lm_loss_ppl'' = Some (RFloat (exp (mean env reduced)))
         \<and> res ''lm_loss_char_lvl_ppl'' = Some (RFloat (exp (mean env reduced * tpc)))"
    by simp
  then have one: "tpc = 1 \<longrightarrow> res ''lm_loss_char_lvl_ppl'' = res ''lm_loss_ppl''"
    by simp
  from 2 assms(1)
  have f2: "no_grad (eval_loop env a (CharCounter it) verbose 0 []) s1 = (Inr losses, s2)"
    by simp
  from 1 have f1: "model_eval s = (Inr (), s1)" by simp
  from f1 f2 3 4 v one show ?thesis by blast
qed

theorem u_get_batch_shifts_witness:
  "shape raw0 2 (2 + 1)
   \<and> (\<exists>tokens labels s'.
         u_get_batch env0 args0 0 [''text''] (Some [''text'' \<mapsto> raw0]) s0
           = (Inr (tokens, labels, (), (), ()), s')
       \<and> tokens = [[1, 2], [4, 5]] \<and> labels = [[2, 3], [5, 6]]
       \<and> labels ! 1 ! 1 = raw0 ! 1 ! 2 \<and> tokens ! 1 ! 1 = raw0 ! 1 ! 1)"
proof -
  have h1: "broadcast_data env0 [''text''] (Some [''text'' \<mapsto> raw0]) (eng s0)
      = (Some [''text'' \<mapsto> raw0], eng s0)"
    by (simp add: env0_def)
  have h2: "[''text'' \<mapsto> raw0] ''text'' = Some raw0" by simp
  have h3: "shape raw0 2 (2 + 1)" by (simp add: shape_def raw0_def)
  have h4: "get_ltor_masks_and_position_ids env0 (map butlast raw0) 0 (eod_mask_loss args0)
      (eng s0) = (Some ((), (), ()), eng s0)"
    by (simp add: env0_def ok_def)
  from u_get_batch_shifts [OF h1 h2 h3 h4]
  obtain tokens labels s' where
    r: "u_get_batch env0 args0 0 [''text''] (Some [''text'' \<mapsto> raw0]) s0
       = (Inr (tokens, labels, (), (), ()), s')"
    and t: "tokens = map butlast raw0" and l: "labels = map (drop 1) raw0"
    and el: "\<forall>i < 2. \<forall>j < 2. labels ! i ! j = raw0 ! i ! (j + 1) \<and> tokens ! i ! j = raw0 ! i ! j"
    by blast
  from el have "labels ! 1 ! 1 = raw0 ! 1 ! 2 \<and> tokens ! 1 ! 1 = raw0 ! 1 ! 1"
    by (metis one_add_one one_less_numeral_iff semiring_norm(76))
  moreover from t l have "tokens = [[1, 2], [4, 5]] \<and> labels = [[2, 3], [5, 6]]"
    by (simp add: raw0_def)
  ultimately show ?thesis using r h3 by blast
qed

lemma evaluate_ppl_run:
  "evaluate env0 args_ppl (DataIter 2) False s0
     = (Inr [''lm_loss'' \<mapsto> RFloat 2, ''lm_loss_ppl'' \<mapsto> RFloat (exp 2),
             ''lm_loss_char_lvl_ppl'' \<mapsto> RFloat (exp 2)],
        \<lparr>eng = \<lparr>training = True, ext = 0\<rparr>, grad_enabled = True,
         trace =
           [(EvModelEval, True), (EvTimer ''forward'' TGet, False),
            (EvTimer ''batch generator'' TStart, False),
            (EvNext (CharCounter (DataIter 2)), False),
            (EvBroadcastData, False), (EvMasks, False),
            (EvTimer ''batch generator'' TStop, False), (EvModelCall, False),
            (EvCrossEntropy, False), (EvReduceLosses, True),
            (EvTokensPerChar, True), (EvModelTrain, True)]\<rparr>)"
  by (simp add: eval_defs args_ppl_def args0_def env0_def s0_def prog_defs)

theorem evaluate_char_level_ppl_witness:
  "char_level_ppl args_ppl \<and> eval_tasks args_ppl = []
   \<and> (\<exists>res s' e e'.
         evaluate env0 args_ppl (DataIter 2) False s0 = (Inr res, s')
       \<and> tokens_per_char env0 (CharCounter (DataIter 2)) e = (Some 1, e')
       \<and> res ''lm_loss'' = Some (RFloat 2)
       \<and> res ''lm_loss_ppl'' = Some (RFloat (exp 2))
       \<and> res ''lm_loss_char_lvl_ppl'' = res ''lm_loss_ppl'')"
proof -
  have h1: "char_level_ppl args_ppl" and h3: "eval_tasks args_ppl = []"
    by (simp_all add: args_ppl_def args0_def)
  from h3 have h3': "eval_tasks args_ppl = []
         \<or> (\<forall>e h e'. run_eval_harness env0 (eval_tasks args_ppl) e = (Some h, e')
               \<longrightarrow> h ''lm_loss'' = None \<and> h ''lm_loss_ppl'' = None
                   \<and> h ''lm_loss_char_lvl_ppl'' = None)" by simp
  from evaluate_char_level_ppl [OF h1 evaluate_ppl_run h3']
  obtain reduced e3 tpc e4 where
    tpc: "tokens_per_char env0 (CharCounter (DataIter 2)) e3 = (Some tpc, e4)"
    and eq: "tpc = 1 \<longrightarrow>
      [''lm_loss'' \<mapsto> RFloat 2, ''lm_loss_ppl'' \<mapsto> RFloat (exp 2),
       ''lm_loss_char_lvl_ppl'' \<mapsto> RFloat (exp 2)] ''lm_loss_char_lvl_ppl''
      = [''lm_loss'' \<mapsto> RFloat 2, ''lm_loss_ppl'' \<mapsto> RFloat (exp 2),
       ''lm_loss_char_lvl_ppl'' \<mapsto> RFloat (exp 2)] ''lm_loss_ppl''"
    by blast
  from tpc have one: "tpc = 1" by (simp add: env0_def ok_def)
  with tpc have t1: "tokens_per_char env0 (CharCounter (DataIter 2)) e3 = (Some 1, e4)"
    by simp
  from eq one have same:
    "[''lm_loss'' \<mapsto> RFloat 2, ''lm_loss_ppl'' \<mapsto> RFloat (exp 2),
       ''lm_loss_char_lvl_ppl'' \<mapsto> RFloat (exp 2)] ''lm_loss_char_lvl_ppl''
      = [''lm_loss'' \<mapsto> RFloat 2, ''lm_loss_ppl'' \<mapsto> RFloat (exp 2),
       ''lm_loss_char_lvl_ppl'' \<mapsto> RFloat (exp (2::real))] ''lm_loss_ppl''"
    by blast
  have vals: "[''lm_loss'' \<mapsto> RFloat 2, ''lm_loss_ppl'' \<mapsto> RFloat (exp 2),
       ''lm_loss_char_lvl_ppl'' \<mapsto> RFloat (exp 2)] ''lm_loss'' = Some (RFloat 2)
     \<and> [''lm_loss'' \<mapsto> RFloat 2, ''lm_loss_ppl'' \<mapsto> RFloat (exp 2),
       ''lm_loss_char_lvl_ppl'' \<mapsto> RFloat (exp 2)] ''lm_loss_ppl''
         = Some (RFloat (exp (2::real)))"
    by simp
  from h1 h3 evaluate_ppl_run t1 same vals show ?thesis by blast
qed

end
